theory Spec2Isabelle
  imports Complex_Main "HOL-Library.Stream"
begin

section \<open>Vectors\<close>

text \<open>
  The script computes with \<^verbatim>\<open>mathutils.Vector\<close>, a triple of floating-point numbers.
  The model takes the components as real numbers: every statement below is about the
  arithmetic the script writes down, not about rounding.  The fields are called
  \<open>vx\<close>, \<open>vy\<close>, \<open>vz\<close> for the script's \<^verbatim>\<open>.x\<close>, \<^verbatim>\<open>.y\<close>, \<^verbatim>\<open>.z\<close>.
\<close>

record vec =
  vx :: real
  vy :: real
  vz :: real

definition Vector :: "real \<Rightarrow> real \<Rightarrow> real \<Rightarrow> vec" where
  "Vector a b c = \<lparr>vx = a, vy = b, vz = c\<rparr>"

text \<open>\<^verbatim>\<open>Vector()\<close>: the zero vector.\<close>

definition Vector0 :: vec where
  "Vector0 = Vector 0 0 0"

text \<open>\<^verbatim>\<open>a + b\<close>, \<^verbatim>\<open>a - b\<close> and \<^verbatim>\<open>a * s\<close> on vectors.\<close>

definition vadd :: "vec \<Rightarrow> vec \<Rightarrow> vec" where
  "vadd a b = Vector (vx a + vx b) (vy a + vy b) (vz a + vz b)"

definition vsub :: "vec \<Rightarrow> vec \<Rightarrow> vec" where
  "vsub a b = Vector (vx a - vx b) (vy a - vy b) (vz a - vz b)"

definition vscale :: "vec \<Rightarrow> real \<Rightarrow> vec" where
  "vscale a s = Vector (vx a * s) (vy a * s) (vz a * s)"

text \<open>\<^verbatim>\<open>v.length\<close>: the Euclidean length.\<close>

definition vlength :: "vec \<Rightarrow> real" where
  "vlength a = sqrt (vx a * vx a + vy a * vy a + vz a * vz a)"

text \<open>\<^verbatim>\<open>v.length_squared\<close>: the sum of the squares of the components.\<close>

definition length_squared :: "vec \<Rightarrow> real" where
  "length_squared a = vx a * vx a + vy a * vy a + vz a * vz a"

text \<open>
  \<^verbatim>\<open>v.normalized()\<close> and \<^verbatim>\<open>v.normalize()\<close>.  The library divides the vector by its length
  when the squared length is above \<^verbatim>\<open>1.0e-35\<close>; otherwise, and so for the zero vector and
  for every vector shorter than about \<^verbatim>\<open>3.2e-18\<close>, it returns the zero vector.  It raises
  nothing.
\<close>

definition normalized :: "vec \<Rightarrow> vec" where
  "normalized a =
     (if length_squared a > 1 / 10 ^ 35 then vscale a (1 / vlength a) else Vector0)"

section \<open>Configuration settings\<close>

definition CITY_GRID_SIZE :: real where "CITY_GRID_SIZE = 20"
definition BUILDING_SPACING :: real where "BUILDING_SPACING = 5.0"
definition HOSPITAL_RADIUS :: real where "HOSPITAL_RADIUS = 2"
definition HOSPITAL_HEIGHT :: real where "HOSPITAL_HEIGHT = 8"
definition CLOUD_RADIUS :: real where "CLOUD_RADIUS = 3"
definition CLOUD_ALTITUDE :: real where "CLOUD_ALTITUDE = 10"
definition CLOUD_SPEED :: real where "CLOUD_SPEED = 0.1"
definition DRONE_ALTITUDE :: real where "DRONE_ALTITUDE = CLOUD_ALTITUDE"
definition DRONE_SPEED :: real where "DRONE_SPEED = 0.15"
definition DRONE_AVOIDANCE_RADIUS :: real where "DRONE_AVOIDANCE_RADIUS = CLOUD_RADIUS + 3"
definition CITY_BOUNDARY_X :: real where
  "CITY_BOUNDARY_X = CITY_GRID_SIZE * BUILDING_SPACING / 2"
definition CITY_BOUNDARY_Y :: real where
  "CITY_BOUNDARY_Y = CITY_GRID_SIZE * BUILDING_SPACING / 2"

section \<open>Scene objects\<close>

text \<open>
  A hospital is a scene object that never moves.  The script compares hospitals with
  \<^verbatim>\<open>h != current_hospital\<close>, which is identity of scene objects; the model gives every
  hospital the number \<open>hid\<close> of its creation, so that two hospital records are equal
  exactly when they are the same object.
\<close>

record hospital =
  hid :: nat
  hospital_location :: vec

text \<open>A cloud object: its \<^verbatim>\<open>location\<close> and its custom property \<^verbatim>\<open>cloud["direction"]\<close>.\<close>

record cloud =
  cloud_location :: vec
  cloud_direction :: vec

text \<open>
  An entry \<^verbatim>\<open>(drone, target, current_hospital)\<close> of the list \<^verbatim>\<open>drones\<close>, where the first
  component is the drone body, of which only \<^verbatim>\<open>drone.location\<close> is read and written.
\<close>

record drone =
  drone_location :: vec
  target :: vec
  current_hospital :: hospital

text \<open>The three global lists of the script.\<close>

record scene =
  hospitals :: "hospital list"
  clouds :: "cloud list"
  drones :: "drone list"

datatype error = IndexError

section \<open>Random numbers\<close>

text \<open>
  The script draws from Python's global generator.  The model reads the draws from
  streams that are passed along: a stream of reals for \<^verbatim>\<open>random.random()\<close>, whose
  values lie in \<open>[0, 1)\<close>, and a stream of naturals for \<^verbatim>\<open>random.choice\<close>.
\<close>

text \<open>\<^verbatim>\<open>random.uniform(a, b)\<close> is \<^verbatim>\<open>a + (b - a) * random()\<close>.\<close>

definition uniform :: "real \<Rightarrow> real \<Rightarrow> real \<Rightarrow> real" where
  "uniform a b u = a + (b - a) * u"

text \<open>\<^verbatim>\<open>random.choice(seq)\<close> raises \<^verbatim>\<open>IndexError\<close> on an empty sequence.\<close>

definition choice :: "nat stream \<Rightarrow> 'a list \<Rightarrow> error + ('a \<times> nat stream)" where
  "choice rng seq =
     (if seq = [] then Inl IndexError
      else Inr (seq ! (shd rng mod length seq), stl rng))"

section \<open>The cloud motion controller\<close>

text \<open>The generator expression \<^verbatim>\<open>near_hospital\<close> of \<^verbatim>\<open>move_clouds\<close>.\<close>

definition near_hospital :: "hospital list \<Rightarrow> vec \<Rightarrow> bool" where
  "near_hospital hs new_pos =
     list_ex (\<lambda>h. vlength (vsub (Vector (vx (hospital_location h)) (vy (hospital_location h))
                                        CLOUD_ALTITUDE) new_pos)
                    < CLOUD_RADIUS + HOSPITAL_RADIUS) hs"

text \<open>The body of the loop of \<^verbatim>\<open>move_clouds\<close>, for one cloud.\<close>

definition move_cloud :: "hospital list \<Rightarrow> cloud \<Rightarrow> cloud" where
  "move_cloud hs c =
     (let direction = cloud_direction c;
          new_pos = vadd (cloud_location c) (vscale direction CLOUD_SPEED);
          near = near_hospital hs new_pos;
          direction = (if \<bar>vx new_pos\<bar> > CITY_BOUNDARY_X \<or> near
                       then direction\<lparr>vx := vx direction * (- 1)\<rparr> else direction);
          direction = (if \<bar>vy new_pos\<bar> > CITY_BOUNDARY_Y \<or> near
                       then direction\<lparr>vy := vy direction * (- 1)\<rparr> else direction)
      in \<lparr>cloud_location = vadd (cloud_location c) (vscale direction CLOUD_SPEED),
          cloud_direction = direction\<rparr>)"

fun move_clouds :: "hospital list \<Rightarrow> cloud list \<Rightarrow> cloud list" where
  "move_clouds hs [] = []"
| "move_clouds hs (c # cs) = move_cloud hs c # move_clouds hs cs"

section \<open>The drone navigation controller\<close>

text \<open>The loop over the clouds in \<^verbatim>\<open>move_drone\<close>, with the accumulator \<^verbatim>\<open>repulsion\<close>.\<close>

fun repulsion_loop :: "vec \<Rightarrow> cloud list \<Rightarrow> vec \<Rightarrow> vec" where
  "repulsion_loop current_pos [] repulsion = repulsion"
| "repulsion_loop current_pos (c # cs) repulsion =
     (let cloud_pos = Vector (vx (cloud_location c)) (vy (cloud_location c)) 0;
          drone_pos_2d = Vector (vx current_pos) (vy current_pos) 0;
          distance = vlength (vsub cloud_pos drone_pos_2d)
      in if distance < DRONE_AVOIDANCE_RADIUS
         then (let direction = normalized (vsub drone_pos_2d cloud_pos);
                   strength = 1.5 * (DRONE_AVOIDANCE_RADIUS - distance) / DRONE_AVOIDANCE_RADIUS
               in repulsion_loop current_pos cs (vadd repulsion (vscale direction strength)))
         else repulsion_loop current_pos cs repulsion)"

text \<open>\<^verbatim>\<open>move_drone(drone, target, clouds)\<close>: the new \<^verbatim>\<open>drone.location\<close>.\<close>

definition move_drone :: "vec \<Rightarrow> vec \<Rightarrow> cloud list \<Rightarrow> vec" where
  "move_drone current_pos tgt cs =
     (let target_vector = vsub tgt current_pos;
          attraction = (if vlength target_vector > 0 then normalized target_vector else Vector0);
          repulsion = repulsion_loop current_pos cs Vector0;
          movement = vadd attraction repulsion;
          movement = (if vlength movement > 0 then normalized movement else movement);
          new_pos = vadd current_pos (vscale movement DRONE_SPEED)
      in new_pos\<lparr>vz := DRONE_ALTITUDE\<rparr>)"

section \<open>The tick driver\<close>

text \<open>
  The body of the loop over \<^verbatim>\<open>drones\<close> in \<^verbatim>\<open>update_scene\<close>, for one entry: the new entry
  \<^verbatim>\<open>drones[idx]\<close> with the new \<^verbatim>\<open>drone.location\<close>.  An exception of \<^verbatim>\<open>random.choice\<close>
  leaves the handler, which is the result \<open>Inl\<close>.
\<close>

definition update_drone ::
  "hospital list \<Rightarrow> cloud list \<Rightarrow> drone \<Rightarrow> nat stream \<Rightarrow> error + (drone \<times> nat stream)"
where
  "update_drone hs cs d rng =
     (if vlength (vsub (drone_location d) (target d)) < DRONE_SPEED * 2
      then (case choice rng (filter (\<lambda>h. h \<noteq> current_hospital d) hs) of
              Inl e \<Rightarrow> Inl e
            | Inr (new_hospital, rng1) \<Rightarrow>
                (let new_target = (hospital_location new_hospital)\<lparr>vz := DRONE_ALTITUDE\<rparr>;
                     departure_point =
                       (hospital_location (current_hospital d))\<lparr>vz := DRONE_ALTITUDE\<rparr>
                 in Inr (\<lparr>drone_location = departure_point, target = new_target,
                          current_hospital = new_hospital\<rparr>, rng1)))
      else Inr (d\<lparr>drone_location := move_drone (drone_location d) (target d) cs\<rparr>, rng))"

text \<open>The loop over \<^verbatim>\<open>drones\<close>, in the order of the list.\<close>

fun drones_loop ::
  "hospital list \<Rightarrow> cloud list \<Rightarrow> drone list \<Rightarrow> nat stream \<Rightarrow> error + (drone list \<times> nat stream)"
where
  "drones_loop hs cs [] rng = Inr ([], rng)"
| "drones_loop hs cs (d # ds) rng =
     (case update_drone hs cs d rng of
        Inl e \<Rightarrow> Inl e
      | Inr (d', rng1) \<Rightarrow>
          (case drones_loop hs cs ds rng1 of
             Inl e \<Rightarrow> Inl e
           | Inr (ds', rng2) \<Rightarrow> Inr (d' # ds', rng2)))"

text \<open>\<^verbatim>\<open>update_scene\<close>: the clouds first, then the drones against the moved clouds.\<close>

definition update_scene :: "scene \<Rightarrow> nat stream \<Rightarrow> error + (scene \<times> nat stream)" where
  "update_scene s rng =
     (let cs = move_clouds (hospitals s) (clouds s)
      in (case drones_loop (hospitals s) cs (drones s) rng of
            Inl e \<Rightarrow> Inl e
          | Inr (ds, rng1) \<Rightarrow> Inr (s\<lparr>clouds := cs, drones := ds\<rparr>, rng1)))"

text \<open>The handler called on \<open>n\<close> consecutive frames.\<close>

fun run_ticks :: "nat \<Rightarrow> scene \<Rightarrow> nat stream \<Rightarrow> error + (scene \<times> nat stream)" where
  "run_ticks 0 s rng = Inr (s, rng)"
| "run_ticks (Suc n) s rng =
     (case update_scene s rng of
        Inl e \<Rightarrow> Inl e
      | Inr (s1, rng1) \<Rightarrow> run_ticks n s1 rng1)"

section \<open>Scene setup\<close>

text \<open>
  \<^verbatim>\<open>NUM_DRONES\<close> and \<^verbatim>\<open>NUM_HOSPITALS\<close> are drawn once with \<^verbatim>\<open>random.randint(3, 7)\<close> and
  \<^verbatim>\<open>random.randint(5, 10)\<close>; the function \<open>build_scene\<close> below takes them as the arguments \<open>num_drones\<close>
  and \<open>num_hospitals\<close>.  The city grid is built before the hospitals and uses draws of
  its own; the streams given to it are the draws that follow.
\<close>

text \<open>The position sampled in the body of both \<^verbatim>\<open>while True\<close> loops, at height \<open>z\<close>.\<close>

definition sample_position :: "real \<Rightarrow> real stream \<Rightarrow> vec" where
  "sample_position z us =
     Vector (uniform (- CITY_BOUNDARY_X) CITY_BOUNDARY_X (shd us))
            (uniform (- CITY_BOUNDARY_Y) CITY_BOUNDARY_Y (shd (stl us))) z"

text \<open>
  The \<^verbatim>\<open>while True\<close> loop of both placements: sample a position, leave the loop when the
  test \<open>ok\<close> accepts it, sample again otherwise.  The loop has no other exit, so the
  function is partial: \<open>None\<close> is the loop that never ends.
\<close>

partial_function (option) place ::
  "(vec \<Rightarrow> bool) \<Rightarrow> real \<Rightarrow> real stream \<Rightarrow> (vec \<times> real stream) option"
where
  "place ok z us =
     (if ok (sample_position z us) then Some (sample_position z us, stl (stl us))
      else place ok z (stl (stl us)))"

text \<open>The test of the hospital loop, against \<^verbatim>\<open>hospital_positions\<close>.\<close>

definition hospital_ok :: "vec list \<Rightarrow> vec \<Rightarrow> bool" where
  "hospital_ok hospital_positions pos =
     list_all (\<lambda>p. vlength (vsub pos p) > HOSPITAL_RADIUS * 2) hospital_positions"

text \<open>The test of the cloud loop, against the clouds so far and \<^verbatim>\<open>hospital_positions\<close>.\<close>

definition cloud_ok :: "vec list \<Rightarrow> vec list \<Rightarrow> vec \<Rightarrow> bool" where
  "cloud_ok cloud_locations hospital_positions pos =
     (list_all (\<lambda>p. vlength (vsub pos p) > CLOUD_RADIUS * 2) cloud_locations \<and>
      list_all (\<lambda>p. vlength (vsub pos p) > CLOUD_RADIUS + HOSPITAL_RADIUS) hospital_positions)"

text \<open>
  The loop \<^verbatim>\<open>for _ in range(NUM_HOSPITALS)\<close>.  The list \<^verbatim>\<open>hospital_positions\<close> of the
  script holds the locations of \<^verbatim>\<open>hospitals\<close> in the same order.
\<close>

fun create_hospitals ::
  "nat \<Rightarrow> hospital list \<Rightarrow> real stream \<Rightarrow> (hospital list \<times> real stream) option"
where
  "create_hospitals 0 hs us = Some (hs, us)"
| "create_hospitals (Suc n) hs us =
     (case place (hospital_ok (map hospital_location hs)) (HOSPITAL_HEIGHT / 2) us of
        None \<Rightarrow> None
      | Some (pos, us1) \<Rightarrow>
          create_hospitals n (hs @ [\<lparr>hid = length hs, hospital_location = pos\<rparr>]) us1)"

text \<open>The heading drawn for a new cloud.\<close>

definition sample_direction :: "real stream \<Rightarrow> vec" where
  "sample_direction us =
     normalized (Vector (uniform (- 1) 1 (shd us)) (uniform (- 1) 1 (shd (stl us))) 0)"

text \<open>The loop \<^verbatim>\<open>for _ in range(NUM_CLOUDS)\<close>.\<close>

fun create_clouds ::
  "nat \<Rightarrow> hospital list \<Rightarrow> cloud list \<Rightarrow> real stream \<Rightarrow> (cloud list \<times> real stream) option"
where
  "create_clouds 0 hs cs us = Some (cs, us)"
| "create_clouds (Suc n) hs cs us =
     (case place (cloud_ok (map cloud_location cs) (map hospital_location hs))
                 CLOUD_ALTITUDE us of
        None \<Rightarrow> None
      | Some (pos, us1) \<Rightarrow>
          create_clouds n hs
            (cs @ [\<lparr>cloud_location = pos, cloud_direction = sample_direction us1\<rparr>])
            (stl (stl us1)))"

text \<open>The loop \<^verbatim>\<open>for _ in range(NUM_DRONES)\<close>.\<close>

fun init_drones :: "nat \<Rightarrow> hospital list \<Rightarrow> nat stream \<Rightarrow> error + (drone list \<times> nat stream)"
where
  "init_drones 0 hs rng = Inr ([], rng)"
| "init_drones (Suc n) hs rng =
     (case choice rng hs of
        Inl e \<Rightarrow> Inl e
      | Inr (start_hospital, rng1) \<Rightarrow>
          (let start = (hospital_location start_hospital)\<lparr>vz := DRONE_ALTITUDE\<rparr>
           in (case choice rng1 (filter (\<lambda>h. h \<noteq> start_hospital) hs) of
                 Inl e \<Rightarrow> Inl e
               | Inr (end_hospital, rng2) \<Rightarrow>
                   (let end = (hospital_location end_hospital)\<lparr>vz := DRONE_ALTITUDE\<rparr>
                    in (case init_drones n hs rng2 of
                          Inl e \<Rightarrow> Inl e
                        | Inr (ds, rng3) \<Rightarrow>
                            Inr (\<lparr>drone_location = start, target = end,
                                  current_hospital = start_hospital\<rparr> # ds, rng3))))))"

text \<open>
  The main part of the script from \<^verbatim>\<open>hospitals = []\<close> to the registration of the handler:
  \<open>None\<close> when a placement loop does not end, \<open>Some (Inl e)\<close> when the script stops
  with an exception, \<open>Some (Inr (s, rng))\<close> with the scene \<open>s\<close> otherwise.
\<close>

definition build_scene ::
  "nat \<Rightarrow> nat \<Rightarrow> real stream \<Rightarrow> nat stream \<Rightarrow> (error + (scene \<times> nat stream)) option"
where
  "build_scene num_drones num_hospitals us rng =
     (case create_hospitals num_hospitals [] us of
        None \<Rightarrow> None
      | Some (hs, us1) \<Rightarrow>
          (case create_clouds (num_hospitals * 2) hs [] us1 of
             None \<Rightarrow> None
           | Some (cs, us2) \<Rightarrow>
               Some (case init_drones num_drones hs rng of
                       Inl e \<Rightarrow> Inl e
                     | Inr (ds, rng1) \<Rightarrow>
                         Inr (\<lparr>hospitals = hs, clouds = cs, drones = ds\<rparr>, rng1))))"

section \<open>The navigation rule in the words of the specification\<close>

text \<open>
  These definitions follow section 4.2 of the specification, not the script; they are
  compared with \<open>move_drone\<close> below.  The rule is written twice.  In \<open>spec_attraction\<close>,
  \<open>spec_repulsion\<close> and \<open>spec_movement\<close> the word \<^verbatim>\<open>normalize\<close> is the library's
  \<open>normalized\<close>.  In \<open>unit_attraction\<close>, \<open>unit_repulsion\<close> and \<open>unit_movement\<close> it is
  \<open>unit\<close>, the unit vector in the direction of every vector other than the zero vector.
\<close>

definition planar :: "vec \<Rightarrow> vec" where
  "planar p = Vector (vx p) (vy p) 0"

definition planar_distance :: "vec \<Rightarrow> vec \<Rightarrow> real" where
  "planar_distance a b = vlength (vsub (planar a) (planar b))"

definition vsum :: "vec list \<Rightarrow> vec" where
  "vsum vs = foldr vadd vs Vector0"

definition spec_attraction :: "vec \<Rightarrow> vec \<Rightarrow> vec" where
  "spec_attraction position tgt =
     (if tgt \<noteq> position then normalized (vsub tgt position) else Vector0)"

definition spec_repulsion_term :: "vec \<Rightarrow> cloud \<Rightarrow> vec" where
  "spec_repulsion_term position c =
     vscale (normalized (vsub (planar position) (planar (cloud_location c))))
            (1.5 * (DRONE_AVOIDANCE_RADIUS - planar_distance position (cloud_location c))
               / DRONE_AVOIDANCE_RADIUS)"

definition spec_repulsion :: "vec \<Rightarrow> cloud list \<Rightarrow> vec" where
  "spec_repulsion position cs =
     vsum (map (spec_repulsion_term position)
             (filter (\<lambda>c. planar_distance position (cloud_location c) < DRONE_AVOIDANCE_RADIUS)
                cs))"

definition spec_movement :: "vec \<Rightarrow> vec \<Rightarrow> cloud list \<Rightarrow> vec" where
  "spec_movement position tgt cs =
     (let m = vadd (spec_attraction position tgt) (spec_repulsion position cs)
      in if m \<noteq> Vector0 then normalized m else Vector0)"

definition unit :: "vec \<Rightarrow> vec" where
  "unit a = (if a = Vector0 then Vector0 else vscale a (1 / vlength a))"

definition unit_attraction :: "vec \<Rightarrow> vec \<Rightarrow> vec" where
  "unit_attraction position tgt =
     (if tgt \<noteq> position then unit (vsub tgt position) else Vector0)"

definition unit_repulsion_term :: "vec \<Rightarrow> cloud \<Rightarrow> vec" where
  "unit_repulsion_term position c =
     vscale (unit (vsub (planar position) (planar (cloud_location c))))
            (1.5 * (DRONE_AVOIDANCE_RADIUS - planar_distance position (cloud_location c))
               / DRONE_AVOIDANCE_RADIUS)"

definition unit_repulsion :: "vec \<Rightarrow> cloud list \<Rightarrow> vec" where
  "unit_repulsion position cs =
     vsum (map (unit_repulsion_term position)
             (filter (\<lambda>c. planar_distance position (cloud_location c) < DRONE_AVOIDANCE_RADIUS)
                cs))"

definition unit_movement :: "vec \<Rightarrow> vec \<Rightarrow> cloud list \<Rightarrow> vec" where
  "unit_movement position tgt cs =
     (let m = vadd (unit_attraction position tgt) (unit_repulsion position cs)
      in if m \<noteq> Vector0 then unit m else Vector0)"

section \<open>Example scenes\<close>

text \<open>
  The scenario of section 8 of the specification: hospital A at the origin, hospital B at
  \<open>x = 10\<close>, one drone at \<open>x = 9.9\<close> on its way from A to B.  Hospitals stand at height
  \<open>HOSPITAL_HEIGHT / 2 = 4\<close>, the drone flies at altitude \<open>10\<close>.
\<close>

definition hospital_A :: hospital where
  "hospital_A = \<lparr>hid = 0, hospital_location = Vector 0 0 4\<rparr>"

definition hospital_B :: hospital where
  "hospital_B = \<lparr>hid = 1, hospital_location = Vector 10 0 4\<rparr>"

definition scenario :: scene where
  "scenario =
     \<lparr>hospitals = [hospital_A, hospital_B], clouds = [],
      drones = [\<lparr>drone_location = Vector 9.9 0 10, target = Vector 10 0 10,
                 current_hospital = hospital_A\<rparr>]\<rparr>"

text \<open>
  Two hospitals far to the north and to the south, a drone at the origin on its way from
  the southern to the northern one, and a cloud on the \<open>x\<close> axis drifting towards the
  drone; in the scene \<open>approach\<close> the cloud is at distance \<open>3.1\<close> before the tick.
\<close>

definition hospital_N :: hospital where
  "hospital_N = \<lparr>hid = 0, hospital_location = Vector 0 40 4\<rparr>"

definition hospital_S :: hospital where
  "hospital_S = \<lparr>hid = 1, hospital_location = Vector 0 (- 40) 4\<rparr>"

definition drone_north :: drone where
  "drone_north =
     \<lparr>drone_location = Vector 0 0 10, target = Vector 0 40 10, current_hospital = hospital_S\<rparr>"

definition cloud_at :: "real \<Rightarrow> cloud" where
  "cloud_at a = \<lparr>cloud_location = Vector a 0 10, cloud_direction = Vector (- 1) 0 0\<rparr>"

definition approach :: scene where
  "approach =
     \<lparr>hospitals = [hospital_N, hospital_S], clouds = [cloud_at 3.1], drones = [drone_north]\<rparr>"

text \<open>A cloud at planar distance \<open>1e-20\<close> from the drone at the origin.\<close>

definition cloud_close :: cloud where
  "cloud_close = cloud_at (1 / 10 ^ 20)"

text \<open>
  The cloud that the cloud loop creates over hospital A when both draws for its heading
  are \<open>1/2\<close>; and draws that place one hospital and its two clouds.
\<close>

definition cloud_still :: cloud where
  "cloud_still = \<lparr>cloud_location = Vector 0 0 10, cloud_direction = Vector0\<rparr>"


section \<open>The stored hospital\<close>

text \<open>
  Two relations between a drone entry and a hospital, used to state what the stored
  hospital is: the drone stands at the hospital's departure point (the hospital's location
  at \<open>DRONE_ALTITUDE\<close>), and the drone's target is that point.
\<close>

definition departs_from :: "drone \<Rightarrow> hospital \<Rightarrow> bool" where
  "departs_from d h \<longleftrightarrow> drone_location d = (hospital_location h)\<lparr>vz := DRONE_ALTITUDE\<rparr>"

definition heads_to :: "drone \<Rightarrow> hospital \<Rightarrow> bool" where
  "heads_to d h \<longleftrightarrow> target d = (hospital_location h)\<lparr>vz := DRONE_ALTITUDE\<rparr>"

section \<open>The samples of a placement loop\<close>

text \<open>
  The loop \<open>place\<close> reads two draws per round, so round \<open>k\<close> samples its position
  from the stream after \<open>2 * k\<close> draws.  \<open>first_accepted ok z us k\<close>: round \<open>k\<close> is the
  first whose position the test accepts.
\<close>

definition first_accepted :: "(vec \<Rightarrow> bool) \<Rightarrow> real \<Rightarrow> real stream \<Rightarrow> nat \<Rightarrow> bool" where
  "first_accepted ok z us k \<longleftrightarrow>
     ok (sample_position z (sdrop (2 * k) us)) \<and>
     (\<forall>j<k. \<not> ok (sample_position z (sdrop (2 * j) us)))"

section \<open>Invariants of the scene\<close>

text \<open>
  \<open>level s\<close>: every cloud is at \<open>CLOUD_ALTITUDE\<close> with a horizontal heading, and every
  drone is at \<open>DRONE_ALTITUDE\<close>.  \<open>can_retarget s\<close>: there is no drone, or there are two
  different hospitals, so that the choice of a new hospital never runs empty.
\<close>

definition level :: "scene \<Rightarrow> bool" where
  "level s \<longleftrightarrow>
     (\<forall>c \<in> set (clouds s). vz (cloud_location c) = CLOUD_ALTITUDE \<and> vz (cloud_direction c) = 0) \<and>
     (\<forall>d \<in> set (drones s). vz (drone_location d) = DRONE_ALTITUDE)"

definition can_retarget :: "scene \<Rightarrow> bool" where
  "can_retarget s \<longleftrightarrow>
     drones s = [] \<or> (\<exists>a \<in> set (hospitals s). \<exists>b \<in> set (hospitals s). a \<noteq> b)"

text \<open>
  Draws that place hospitals A and B and four clouds at \<open>x = 0, 10, 20, 30\<close>, each cloud
  heading along \<open>+x\<close>; and the scene that the script sets up from them with one drone.
\<close>

definition example_draws :: "real stream" where
  "example_draws =
     [1 / 2, 1 / 2, 3 / 5, 1 / 2,
      1 / 2, 1 / 2, 3 / 4, 1 / 2,
      3 / 5, 1 / 2, 3 / 4, 1 / 2,
      7 / 10, 1 / 2, 3 / 4, 1 / 2,
      4 / 5, 1 / 2, 3 / 4, 1 / 2] @- sconst (1 / 2)"

definition cloud_east :: "real \<Rightarrow> cloud" where
  "cloud_east a = \<lparr>cloud_location = Vector a 0 10, cloud_direction = Vector 1 0 0\<rparr>"

definition example_scene :: scene where
  "example_scene =
     \<lparr>hospitals = [hospital_A, hospital_B],
      clouds = [cloud_east 0, cloud_east 10, cloud_east 20, cloud_east 30],
      drones = [\<lparr>drone_location = Vector 0 0 10, target = Vector 10 0 10,
                 current_hospital = hospital_A\<rparr>]\<rparr>"

section \<open>Vector arithmetic\<close>

lemmas settings =
  CITY_GRID_SIZE_def BUILDING_SPACING_def HOSPITAL_RADIUS_def HOSPITAL_HEIGHT_def
  CLOUD_RADIUS_def CLOUD_ALTITUDE_def CLOUD_SPEED_def DRONE_ALTITUDE_def DRONE_SPEED_def
  DRONE_AVOIDANCE_RADIUS_def CITY_BOUNDARY_X_def CITY_BOUNDARY_Y_def

lemma Vector_sel [simp]: "vx (Vector a b c) = a" "vy (Vector a b c) = b" "vz (Vector a b c) = c"
  by (simp_all add: Vector_def)

lemma Vector0_sel [simp]: "vx Vector0 = 0" "vy Vector0 = 0" "vz Vector0 = 0"
  by (simp_all add: Vector0_def)

lemma vec_eqI: "vx a = vx b \<Longrightarrow> vy a = vy b \<Longrightarrow> vz a = vz b \<Longrightarrow> a = (b::vec)"
  by simp

lemma vadd_sel [simp]:
  "vx (vadd a b) = vx a + vx b" "vy (vadd a b) = vy a + vy b" "vz (vadd a b) = vz a + vz b"
  by (simp_all add: vadd_def)

lemma vsub_sel [simp]:
  "vx (vsub a b) = vx a - vx b" "vy (vsub a b) = vy a - vy b" "vz (vsub a b) = vz a - vz b"
  by (simp_all add: vsub_def)

lemma vscale_sel [simp]:
  "vx (vscale a s) = vx a * s" "vy (vscale a s) = vy a * s" "vz (vscale a s) = vz a * s"
  by (simp_all add: vscale_def)

lemma vlength_nonneg [simp]: "0 \<le> vlength a"
  by (simp add: vlength_def)

lemma vlength_eq_0_iff: "vlength a = 0 \<longleftrightarrow> vx a = 0 \<and> vy a = 0 \<and> vz a = 0"
proof -
  have "vx a * vx a + vy a * vy a + vz a * vz a = 0 \<longleftrightarrow> vx a = 0 \<and> vy a = 0 \<and> vz a = 0"
    by (smt (verit) mult_eq_0_iff zero_le_square add_nonneg_eq_0_iff add_nonneg_nonneg)
  then show ?thesis by (simp add: vlength_def)
qed


lemma vlength_sq: "(vlength a)\<^sup>2 = length_squared a"
  by (simp add: vlength_def length_squared_def)

lemma length_squared_nonneg [simp]: "0 \<le> length_squared a"
  by (simp add: length_squared_def)


lemma normalized_small:
  "length_squared a \<le> 1 / 10 ^ 35 \<Longrightarrow> normalized a = Vector0"
  by (simp add: normalized_def)

lemma vlength_Vector0 [simp]: "vlength Vector0 = 0"
  by (simp add: vlength_eq_0_iff)

lemma vlength_flip_x [simp]: "vlength (a\<lparr>vx := vx a * (- 1)\<rparr>) = vlength a"
  by (simp add: vlength_def)

lemma vlength_flip_y [simp]: "vlength (a\<lparr>vy := vy a * (- 1)\<rparr>) = vlength a"
  by (simp add: vlength_def)

section \<open>One tick of the cloud motion controller\<close>

lemma length_move_clouds [simp]: "length (move_clouds hs cs) = length cs"
  by (induction cs) simp_all

lemma nth_move_clouds: "i < length cs \<Longrightarrow> move_clouds hs cs ! i = move_cloud hs (cs ! i)"
  by (induction cs arbitrary: i) (simp_all add: nth_Cons split: nat.splits)

lemma set_move_clouds: "set (move_clouds hs cs) = move_cloud hs ` set cs"
  by (induction cs) simp_all

text \<open>
  Claim C2.  For the cloud at any index \<open>i\<close> of the list, one call of \<open>move_clouds\<close>
  computes the candidate \<open>location + direction * CLOUD_SPEED\<close>; the new heading has its
  \<open>x\<close> component negated exactly when the candidate's \<open>|x|\<close> exceeds
  \<open>CITY_BOUNDARY_X\<close> or the candidate is closer than \<open>CLOUD_RADIUS + HOSPITAL_RADIUS\<close>
  to some hospital position taken at \<open>CLOUD_ALTITUDE\<close>; its \<open>y\<close> component is negated,
  independently, exactly when the candidate's \<open>|y|\<close> exceeds \<open>CITY_BOUNDARY_Y\<close> or the
  same proximity holds; and the new location is the old location plus the new heading
  times \<open>CLOUD_SPEED\<close>, the new heading being the one stored in the cloud.
\<close>

theorem cloud_tick:
  "i < length cs \<Longrightarrow>
   (let c = cs ! i; c' = move_clouds hs cs ! i;
        candidate = vadd (cloud_location c) (vscale (cloud_direction c) CLOUD_SPEED);
        near = (\<exists>h \<in> set hs.
                  vlength (vsub (Vector (vx (hospital_location h)) (vy (hospital_location h))
                                        CLOUD_ALTITUDE) candidate)
                  < CLOUD_RADIUS + HOSPITAL_RADIUS)
    in vx (cloud_direction c') =
         (if \<bar>vx candidate\<bar> > CITY_BOUNDARY_X \<or> near then - vx (cloud_direction c)
          else vx (cloud_direction c)) \<and>
       vy (cloud_direction c') =
         (if \<bar>vy candidate\<bar> > CITY_BOUNDARY_Y \<or> near then - vy (cloud_direction c)
          else vy (cloud_direction c)) \<and>
       vz (cloud_direction c') = vz (cloud_direction c) \<and>
       cloud_location c' = vadd (cloud_location c) (vscale (cloud_direction c') CLOUD_SPEED))"
  by (simp add: nth_move_clouds move_cloud_def near_hospital_def list_ex_iff Let_def)

text \<open>
  A cloud at \<open>x = 49.95\<close> heading along \<open>+x\<close>: the candidate \<open>x = 50.05\<close> is outside the
  boundary \<open>50\<close>, the heading is reversed and the cloud ends at \<open>49.85\<close>.
\<close>

theorem cloud_tick_witness:
  "0 < length [\<lparr>cloud_location = Vector 49.95 0 10, cloud_direction = Vector 1 0 0\<rparr>] \<and>
   cloud_direction
     (move_clouds [] [\<lparr>cloud_location = Vector 49.95 0 10, cloud_direction = Vector 1 0 0\<rparr>] ! 0)
     = Vector (- 1) 0 0 \<and>
   cloud_location
     (move_clouds [] [\<lparr>cloud_location = Vector 49.95 0 10, cloud_direction = Vector 1 0 0\<rparr>] ! 0)
     = Vector 49.85 0 10"
  using cloud_tick
    [of 0 "[\<lparr>cloud_location = Vector 49.95 0 10, cloud_direction = Vector 1 0 0\<rparr>]" "[]"]
  by (simp add: Let_def settings Vector_def vadd_def vscale_def)

lemma vadd_assoc: "vadd (vadd a b) c = vadd a (vadd b c)"
  by (simp add: vadd_def)

lemma vadd_Vector0 [simp]: "vadd Vector0 a = a" "vadd a Vector0 = a"
  by (simp_all add: vadd_def Vector0_def Vector_def)

lemma vlength_vsub_commute: "vlength (vsub a b) = vlength (vsub b a)"
proof -
  have "(vx a - vx b) * (vx a - vx b) = (vx b - vx a) * (vx b - vx a)"
       "(vy a - vy b) * (vy a - vy b) = (vy b - vy a) * (vy b - vy a)"
       "(vz a - vz b) * (vz a - vz b) = (vz b - vz a) * (vz b - vz a)"
    by (simp_all add: algebra_simps)
  then show ?thesis by (simp add: vlength_def)
qed

lemma vlength_pos_iff: "0 < vlength a \<longleftrightarrow> a \<noteq> Vector0"
proof -
  have "a = Vector0 \<longleftrightarrow> vx a = 0 \<and> vy a = 0 \<and> vz a = 0"
    by (auto intro: vec_eqI)
  then show ?thesis
    using vlength_nonneg [of a] vlength_eq_0_iff [of a] by linarith
qed

lemma vsub_eq_Vector0_iff: "vsub a b = Vector0 \<longleftrightarrow> a = b"
  by (auto simp: vsub_def Vector0_def Vector_def intro: vec_eqI)

section \<open>The navigation rule of the script and of the specification\<close>

lemma vsum_simps [simp]: "vsum [] = Vector0" "vsum (v # vs) = vadd v (vsum vs)"
  by (simp_all add: vsum_def)

lemma repulsion_loop_acc:
  "repulsion_loop pos cs acc = vadd acc (spec_repulsion pos cs)"
proof (induction cs arbitrary: acc)
  case Nil
  show ?case by (simp add: spec_repulsion_def)
next
  case (Cons c cs)
  have d: "vlength (vsub (Vector (vx (cloud_location c)) (vy (cloud_location c)) 0)
                         (Vector (vx pos) (vy pos) 0))
           = planar_distance pos (cloud_location c)"
    by (simp add: planar_distance_def planar_def vlength_vsub_commute)
  show ?case
  proof (cases "planar_distance pos (cloud_location c) < DRONE_AVOIDANCE_RADIUS")
    case True
    have "repulsion_loop pos (c # cs) acc
          = repulsion_loop pos cs (vadd acc (spec_repulsion_term pos c))"
      using True by (simp add: d Let_def spec_repulsion_term_def planar_def)
    also have "\<dots> = vadd (vadd acc (spec_repulsion_term pos c)) (spec_repulsion pos cs)"
      by (rule Cons.IH)
    also have "\<dots> = vadd acc (spec_repulsion pos (c # cs))"
      using True by (simp add: spec_repulsion_def vadd_assoc)
    finally show ?thesis .
  next
    case False
    have "repulsion_loop pos (c # cs) acc = repulsion_loop pos cs acc"
      using False by (simp add: d Let_def)
    also have "\<dots> = vadd acc (spec_repulsion pos cs)"
      by (rule Cons.IH)
    also have "\<dots> = vadd acc (spec_repulsion pos (c # cs))"
      using False by (simp add: spec_repulsion_def)
    finally show ?thesis .
  qed
qed

lemma move_drone_spec:
  "move_drone pos tgt cs = (vadd pos (vscale (spec_movement pos tgt cs) DRONE_SPEED))\<lparr>vz := DRONE_ALTITUDE\<rparr>"
  by (simp add: move_drone_def spec_movement_def spec_attraction_def repulsion_loop_acc
      Let_def vlength_pos_iff vsub_eq_Vector0_iff)

section \<open>The loop over the drones\<close>

lemma length_drones_loop:
  "drones_loop hs cs ds rng = Inr (ds', rng') \<Longrightarrow> length ds' = length ds"
  by (induction ds arbitrary: rng ds') (auto split: sum.splits prod.splits)

lemma nth_drones_loop:
  "drones_loop hs cs ds rng = Inr (ds', rng') \<Longrightarrow> i < length ds \<Longrightarrow>
   \<exists>r r'. update_drone hs cs (ds ! i) r = Inr (ds' ! i, r')"
proof (induction ds arbitrary: rng ds' i)
  case Nil
  then show ?case by simp
next
  case (Cons d ds)
  from Cons.prems(1) obtain d' r1 ds1 where
    d: "update_drone hs cs d rng = Inr (d', r1)" and
    ds: "drones_loop hs cs ds r1 = Inr (ds1, rng')" and
    eq: "ds' = d' # ds1"
    by (auto split: sum.splits prod.splits)
  show ?case
  proof (cases i)
    case 0
    with d eq show ?thesis by auto
  next
    case (Suc j)
    with Cons.prems(2) have "j < length ds" by simp
    from Cons.IH [OF ds this] show ?thesis using Suc eq by simp
  qed
qed

lemma vlength_eq_0_iff_Vector0: "vlength a = 0 \<longleftrightarrow> a = Vector0"
  using vlength_pos_iff [of a] vlength_nonneg [of a] by linarith

lemma length_squared_far:
  "\<not> vlength a < DRONE_SPEED * 2 \<Longrightarrow> 1 / 10 ^ 35 < length_squared a"
proof -
  assume "\<not> vlength a < DRONE_SPEED * 2"
  then have "3 / 10 \<le> vlength a" by (simp add: settings)
  then have "(3 / 10)\<^sup>2 \<le> (vlength a)\<^sup>2" by (intro power_mono) simp_all
  then have "9 / 100 \<le> length_squared a"
    unfolding vlength_sq by (simp add: power2_eq_square)
  moreover have "(1::real) / 10 ^ 35 < 9 / 100" by simp
  ultimately show ?thesis by linarith
qed

lemma choice_Inr: "choice rng xs = Inr (x, rng') \<Longrightarrow> x \<in> set xs \<and> rng' = stl rng"
  by (auto simp: choice_def split: if_splits)

lemma update_scene_Inr:
  assumes "update_scene s rng = Inr (s', rng')"
  shows "hospitals s' = hospitals s"
    and "clouds s' = move_clouds (hospitals s) (clouds s)"
    and "length (drones s') = length (drones s)"
    and "i < length (drones s) \<Longrightarrow>
         \<exists>r r'. update_drone (hospitals s) (clouds s') (drones s ! i) r = Inr (drones s' ! i, r')"
proof -
  from assms obtain ds where
    ds: "drones_loop (hospitals s) (move_clouds (hospitals s) (clouds s)) (drones s) rng
         = Inr (ds, rng')"
    and s': "s' = s\<lparr>clouds := move_clouds (hospitals s) (clouds s), drones := ds\<rparr>"
    by (auto simp: update_scene_def Let_def split: sum.splits prod.splits)
  show "hospitals s' = hospitals s" "clouds s' = move_clouds (hospitals s) (clouds s)"
    by (simp_all add: s')
  show "length (drones s') = length (drones s)"
    using length_drones_loop [OF ds] by (simp add: s')
  show "i < length (drones s) \<Longrightarrow>
         \<exists>r r'. update_drone (hospitals s) (clouds s') (drones s ! i) r = Inr (drones s' ! i, r')"
    using nth_drones_loop [OF ds] by (simp add: s')
qed

section \<open>Evaluating lengths\<close>

lemma vlength_recI:
  "0 \<le> l \<Longrightarrow> l\<^sup>2 = a * a + b * b + c * c \<Longrightarrow> vlength \<lparr>vx = a, vy = b, vz = c\<rparr> = l"
  by (simp add: vlength_def real_sqrt_unique)

lemma vlength_x_axis [simp]: "vlength \<lparr>vx = a, vy = 0, vz = 0\<rparr> = \<bar>a\<bar>"
  by (rule vlength_recI) (simp_all add: power2_eq_square)

lemma vlength_y_axis [simp]: "vlength \<lparr>vx = 0, vy = b, vz = 0\<rparr> = \<bar>b\<bar>"
  by (rule vlength_recI) (simp_all add: power2_eq_square)

lemma vlength_z_axis [simp]: "vlength \<lparr>vx = 0, vy = 0, vz = c\<rparr> = \<bar>c\<bar>"
  by (rule vlength_recI) (simp_all add: power2_eq_square)

lemma vlength_3_4_5: "vlength \<lparr>vx = - (3 / 4), vy = 1, vz = 0\<rparr> = 5 / 4"
  by (rule vlength_recI) (simp_all add: power2_eq_square)

lemma move_drone_example:
  "move_drone (Vector 0 0 10) (Vector 0 40 10) [cloud_at 3] = Vector (- 0.09) 0.12 10"
  by (simp add: move_drone_def Let_def settings normalized_def length_squared_def vsub_def
      vadd_def vscale_def Vector_def Vector0_def cloud_at_def vlength_3_4_5)

section \<open>Invariants of the tick\<close>

lemma move_cloud_level:
  "vz (cloud_direction c) = 0 \<Longrightarrow>
   vz (cloud_direction (move_cloud hs c)) = 0 \<and>
   vz (cloud_location (move_cloud hs c)) = vz (cloud_location c)"
  by (simp add: move_cloud_def Let_def)

lemma move_drone_vz [simp]: "vz (move_drone pos tgt cs) = DRONE_ALTITUDE"
  by (simp add: move_drone_def Let_def)

lemma update_drone_vz:
  "update_drone hs cs d r = Inr (d', r') \<Longrightarrow> vz (drone_location d') = DRONE_ALTITUDE"
  by (auto simp: update_drone_def Let_def split: if_splits sum.splits prod.splits)

lemma update_scene_level:
  assumes "update_scene s rng = Inr (s', rng')" and "level s"
  shows "level s'"
proof -
  have c: "vz (cloud_location c') = CLOUD_ALTITUDE \<and> vz (cloud_direction c') = 0"
    if "c' \<in> set (clouds s')" for c'
  proof -
    from that obtain c where "c \<in> set (clouds s)" and "c' = move_cloud (hospitals s) c"
      by (auto simp: update_scene_Inr(2) [OF assms(1)] set_move_clouds)
    with assms(2) move_cloud_level [of c "hospitals s"] show ?thesis
      by (simp add: level_def)
  qed
  have d: "vz (drone_location d') = DRONE_ALTITUDE" if "d' \<in> set (drones s')" for d'
  proof -
    from that obtain i where i: "i < length (drones s')" and d': "d' = drones s' ! i"
      by (auto simp: in_set_conv_nth)
    from i have "i < length (drones s)" by (simp add: update_scene_Inr(3) [OF assms(1)])
    from update_scene_Inr(4) [OF assms(1) this] d' show ?thesis
      by (auto dest: update_drone_vz)
  qed
  from c d show ?thesis by (simp add: level_def)
qed

lemma filter_other_nonempty:
  "a \<in> set hs \<Longrightarrow> b \<in> set hs \<Longrightarrow> a \<noteq> b \<Longrightarrow> filter (\<lambda>x. x \<noteq> h) hs \<noteq> []"
proof -
  assume a: "a \<in> set hs" and b: "b \<in> set hs" and ab: "a \<noteq> b"
  then have "\<exists>x \<in> set hs. x \<noteq> h" by (cases "a = h") auto
  then show ?thesis by (simp add: filter_empty_conv)
qed

lemma update_drone_total:
  "\<exists>a \<in> set hs. \<exists>b \<in> set hs. a \<noteq> b \<Longrightarrow> \<exists>d' r'. update_drone hs cs d r = Inr (d', r')"
proof -
  assume "\<exists>a \<in> set hs. \<exists>b \<in> set hs. a \<noteq> b"
  then obtain a b where "a \<in> set hs" "b \<in> set hs" "a \<noteq> b" by blast
  then have "filter (\<lambda>x. x \<noteq> current_hospital d) hs \<noteq> []"
    by (rule filter_other_nonempty)
  then show ?thesis
    by (simp add: update_drone_def choice_def Let_def)
qed

lemma drones_loop_total:
  "ds = [] \<or> (\<exists>a \<in> set hs. \<exists>b \<in> set hs. a \<noteq> b) \<Longrightarrow>
   \<exists>ds' r'. drones_loop hs cs ds r = Inr (ds', r')"
proof (induction ds arbitrary: r)
  case Nil
  then show ?case by simp
next
  case (Cons d ds)
  then have two: "\<exists>a \<in> set hs. \<exists>b \<in> set hs. a \<noteq> b" by simp
  from update_drone_total [OF two, of cs d r] obtain d' r1 where
    "update_drone hs cs d r = Inr (d', r1)" by blast
  moreover from Cons.IH [of r1] two obtain ds' r2 where
    "drones_loop hs cs ds r1 = Inr (ds', r2)" by blast
  ultimately show ?case by simp
qed

lemma update_scene_total:
  "can_retarget s \<Longrightarrow> \<exists>s' r'. update_scene s r = Inr (s', r') \<and> can_retarget s'"
proof -
  assume cr: "can_retarget s"
  then have "drones s = [] \<or> (\<exists>a \<in> set (hospitals s). \<exists>b \<in> set (hospitals s). a \<noteq> b)"
    by (simp add: can_retarget_def)
  from drones_loop_total [OF this, of "move_clouds (hospitals s) (clouds s)" r]
  obtain ds r' where
    ds: "drones_loop (hospitals s) (move_clouds (hospitals s) (clouds s)) (drones s) r
         = Inr (ds, r')"
    by blast
  then have run: "update_scene s r
    = Inr (s\<lparr>clouds := move_clouds (hospitals s) (clouds s), drones := ds\<rparr>, r')"
    by (simp add: update_scene_def)
  from length_drones_loop [OF ds] cr
  have "can_retarget (s\<lparr>clouds := move_clouds (hospitals s) (clouds s), drones := ds\<rparr>)"
    by (auto simp: can_retarget_def)
  with run show ?thesis by blast
qed

lemma run_ticks_invariant:
  "can_retarget s \<Longrightarrow> level s \<Longrightarrow>
   \<exists>s' r'. run_ticks n s r = Inr (s', r') \<and> can_retarget s' \<and> level s'"
proof (induction n arbitrary: s r)
  case 0
  then show ?case by simp
next
  case (Suc n)
  from update_scene_total [OF Suc.prems(1), of r] obtain s1 r1 where
    step: "update_scene s r = Inr (s1, r1)" and cr: "can_retarget s1" by blast
  from update_scene_level [OF step Suc.prems(2)] have "level s1" .
  from Suc.IH [OF cr this, of r1] step show ?case by simp
qed

section \<open>Claims about one tick\<close>

lemma vlength_ge_vy: "r \<le> \<bar>b\<bar> \<Longrightarrow> \<not> vlength \<lparr>vx = a, vy = b, vz = c\<rparr> < r"
proof -
  assume r: "r \<le> \<bar>b\<bar>"
  have "b * b \<le> a * a + b * b + c * c" by simp
  then have "sqrt (b * b) \<le> sqrt (a * a + b * b + c * c)" by (rule real_sqrt_le_mono)
  then have "\<bar>b\<bar> \<le> vlength \<lparr>vx = a, vy = b, vz = c\<rparr>" by (simp add: vlength_def)
  with r show ?thesis by linarith
qed

lemma update_drone_far:
  "\<not> vlength (vsub (drone_location d) (target d)) < DRONE_SPEED * 2 \<Longrightarrow>
   update_drone hs cs d rng =
     Inr (d\<lparr>drone_location :=
              (vadd (drone_location d)
                 (vscale (spec_movement (drone_location d) (target d) cs) DRONE_SPEED))
              \<lparr>vz := DRONE_ALTITUDE\<rparr>\<rparr>, rng)"
  by (simp add: update_drone_def move_drone_spec)

lemma spec_attraction_far:
  "\<not> vlength (vsub position tgt) < DRONE_SPEED * 2 \<Longrightarrow>
   spec_attraction position tgt
     = vscale (vsub tgt position) (1 / vlength (vsub tgt position))"
proof -
  assume far: "\<not> vlength (vsub position tgt) < DRONE_SPEED * 2"
  then have "\<not> vlength (vsub tgt position) < DRONE_SPEED * 2"
    by (simp add: vlength_vsub_commute [of tgt position])
  then have big: "1 / 10 ^ 35 < length_squared (vsub tgt position)"
    by (rule length_squared_far)
  have "tgt \<noteq> position"
  proof
    assume "tgt = position"
    then have "length_squared (vsub tgt position) = 0" by (simp add: length_squared_def)
    with big show False by simp
  qed
  with big show ?thesis by (simp add: spec_attraction_def normalized_def)
qed

text \<open>
  Claim C3, as amended.  For a drone that is not retargeted in this tick (its distance to
  the target is not below \<open>DRONE_SPEED * 2\<close>) the step of the loop returns, with the
  location \<open>position + movement * DRONE_SPEED\<close> and \<open>z\<close> set to \<open>DRONE_ALTITUDE\<close>, and
  that is the location of the drone in the list after the loop.  Here \<open>movement\<close> is
  \<open>spec_movement\<close>: \<open>normalized\<close> of the sum of attraction and repulsion (zero when the
  sum is zero); the attraction is \<open>normalized\<close> of the vector to the target, which for
  such a drone is that vector divided by its length; the repulsion is the sum over the
  clouds at planar distance below \<open>DRONE_AVOIDANCE_RADIUS\<close> of \<open>normalized\<close> of the planar
  vector from the cloud to the drone times
  \<open>1.5 * (DRONE_AVOIDANCE_RADIUS - distance) / DRONE_AVOIDANCE_RADIUS\<close>.  And
  \<open>normalized\<close> is the library's: the vector divided by its length when its squared
  length is above \<open>1e-35\<close>, the zero vector otherwise.
\<close>

theorem drone_movement:
  "(\<not> vlength (vsub (drone_location d) (target d)) < DRONE_SPEED * 2 \<longrightarrow>
      update_drone hs cs d rng =
        Inr (d\<lparr>drone_location :=
                 (vadd (drone_location d)
                    (vscale (spec_movement (drone_location d) (target d) cs) DRONE_SPEED))
                 \<lparr>vz := DRONE_ALTITUDE\<rparr>\<rparr>, rng) \<and>
      spec_attraction (drone_location d) (target d)
        = vscale (vsub (target d) (drone_location d))
            (1 / vlength (vsub (target d) (drone_location d)))) \<and>
   (drones_loop hs cs ds rng = Inr (ds', rng') \<and> i < length ds \<and>
    \<not> vlength (vsub (drone_location (ds ! i)) (target (ds ! i))) < DRONE_SPEED * 2 \<longrightarrow>
      drone_location (ds' ! i) =
        (vadd (drone_location (ds ! i))
           (vscale (spec_movement (drone_location (ds ! i)) (target (ds ! i)) cs) DRONE_SPEED))
        \<lparr>vz := DRONE_ALTITUDE\<rparr>) \<and>
   (length_squared v \<le> 1 / 10 ^ 35 \<longrightarrow> normalized v = Vector0) \<and>
   (1 / 10 ^ 35 < length_squared v \<longrightarrow> normalized v = vscale v (1 / vlength v))"
proof -
  have "drone_location (ds' ! i) =
        (vadd (drone_location (ds ! i))
           (vscale (spec_movement (drone_location (ds ! i)) (target (ds ! i)) cs) DRONE_SPEED))
        \<lparr>vz := DRONE_ALTITUDE\<rparr>"
    if run: "drones_loop hs cs ds rng = Inr (ds', rng')" and i: "i < length ds"
      and far: "\<not> vlength (vsub (drone_location (ds ! i)) (target (ds ! i))) < DRONE_SPEED * 2"
  proof -
    from nth_drones_loop [OF run i] obtain r r' where
      "update_drone hs cs (ds ! i) r = Inr (ds' ! i, r')" by blast
    with update_drone_far [OF far, of hs cs r] show ?thesis by auto
  qed
  moreover have "normalized v = Vector0" if "length_squared v \<le> 1 / 10 ^ 35"
    using that by (rule normalized_small)
  moreover have "normalized v = vscale v (1 / vlength v)" if "1 / 10 ^ 35 < length_squared v"
    using that by (simp add: normalized_def)
  ultimately show ?thesis
    using update_drone_far [of d hs cs rng]
      spec_attraction_far [of "drone_location d" "target d"]
    by blast
qed

lemma far_north: "\<not> vlength (vsub (drone_location drone_north) (target drone_north)) < DRONE_SPEED * 2"
  by (simp add: drone_north_def vsub_def Vector_def settings)

text \<open>
  The drone at the origin with its target to the north and a cloud at planar distance
  \<open>3\<close> to the east: attraction \<open>(0, 1, 0)\<close>, repulsion \<open>(-0.75, 0, 0)\<close>, movement
  \<open>(-0.6, 0.8, 0)\<close>, new location \<open>(-0.09, 0.12, 10)\<close>.
\<close>

theorem drone_movement_witness:
  "\<not> vlength (vsub (drone_location drone_north) (target drone_north)) < DRONE_SPEED * 2 \<and>
   drones_loop [hospital_N, hospital_S] [cloud_at 3] [drone_north] (sconst 0)
     = Inr ([drone_north\<lparr>drone_location := Vector (- 0.09) 0.12 10\<rparr>], sconst 0) \<and>
   Vector (- 0.09) 0.12 10 =
     (vadd (Vector 0 0 10)
        (vscale (spec_movement (Vector 0 0 10) (Vector 0 40 10) [cloud_at 3]) DRONE_SPEED))
     \<lparr>vz := DRONE_ALTITUDE\<rparr> \<and>
   spec_attraction (Vector 0 0 10) (Vector 0 40 10) = Vector 0 1 0 \<and>
   length_squared Vector0 \<le> 1 / 10 ^ 35 \<and> normalized Vector0 = Vector0"
proof -
  have step: "update_drone [hospital_N, hospital_S] [cloud_at 3] drone_north (sconst 0)
              = Inr (drone_north\<lparr>drone_location := Vector (- 0.09) 0.12 10\<rparr>, sconst 0)"
    using far_north unfolding update_drone_def
    by (simp add: drone_north_def move_drone_example)
  have run: "drones_loop [hospital_N, hospital_S] [cloud_at 3] [drone_north] (sconst 0)
             = Inr ([drone_north\<lparr>drone_location := Vector (- 0.09) 0.12 10\<rparr>], sconst 0)"
    by (simp add: step)
  have i: "(0::nat) < length [drone_north]" by simp
  have far0: "\<not> vlength (vsub (drone_location ([drone_north] ! 0)) (target ([drone_north] ! 0)))
                < DRONE_SPEED * 2"
    using far_north by simp
  note T = drone_movement
    [where d = drone_north and hs = "[hospital_N, hospital_S]" and cs = "[cloud_at 3]"
       and rng = "sconst 0" and ds = "[drone_north]"
       and ds' = "[drone_north\<lparr>drone_location := Vector (- 0.09) 0.12 10\<rparr>]"
       and rng' = "sconst 0" and i = 0 and v = Vector0]
  from mp [OF T [THEN conjunct2, THEN conjunct1] conjI [OF run conjI [OF i far0]]]
  have a: "Vector (- 0.09) 0.12 10 =
     (vadd (Vector 0 0 10)
        (vscale (spec_movement (Vector 0 0 10) (Vector 0 40 10) [cloud_at 3]) DRONE_SPEED))
     \<lparr>vz := DRONE_ALTITUDE\<rparr>"
    by (simp add: drone_north_def)
  from mp [OF T [THEN conjunct1] far_north]
  have "spec_attraction (drone_location drone_north) (target drone_north)
        = vscale (vsub (target drone_north) (drone_location drone_north))
            (1 / vlength (vsub (target drone_north) (drone_location drone_north)))"
    by (rule conjunct2)
  then have b: "spec_attraction (Vector 0 0 10) (Vector 0 40 10) = Vector 0 1 0"
    by (simp add: drone_north_def vsub_def vscale_def Vector_def)
  have z: "length_squared Vector0 \<le> 1 / 10 ^ 35" by (simp add: length_squared_def)
  from mp [OF T [THEN conjunct2, THEN conjunct2, THEN conjunct1] z]
  have c: "normalized Vector0 = Vector0" .
  from far_north run a b z c show ?thesis by (intro conjI)
qed

lemma move_drone_tiny:
  "move_drone (Vector 0 0 10) (Vector 0 40 10) [cloud_close] = Vector 0 0.15 10"
  by (simp add: move_drone_def Let_def settings normalized_def length_squared_def vsub_def
      vadd_def vscale_def Vector_def Vector0_def cloud_at_def cloud_close_def)

lemma unit_movement_tiny:
  "vx (unit_movement (Vector 0 0 10) (Vector 0 40 10) [cloud_close]) < 0"
proof -
  let ?k = "1.5 * (6 - 1 / 10 ^ 20) / 6 :: real"
  let ?m = "\<lparr>vx = - ?k, vy = 1, vz = 0\<rparr> :: vec"
  have k: "0 < ?k" by simp
  have att: "unit_attraction (Vector 0 0 10) (Vector 0 40 10) = Vector 0 1 0"
    by (simp add: unit_attraction_def unit_def vsub_def vscale_def Vector_def Vector0_def)
  have rep: "unit_repulsion (Vector 0 0 10) [cloud_close] = Vector (- ?k) 0 0"
    by (simp add: unit_repulsion_def unit_repulsion_term_def unit_def planar_distance_def
        planar_def cloud_at_def cloud_close_def vsub_def vadd_def vscale_def Vector_def
        Vector0_def settings)
  have m: "vadd (Vector 0 1 0) (Vector (- ?k) 0 0) = ?m"
    by (simp add: vadd_def Vector_def)
  have ne: "?m \<noteq> Vector0" by (simp add: Vector0_def Vector_def)
  then have "vlength ?m \<noteq> 0" by (simp add: vlength_eq_0_iff_Vector0)
  then have pos: "0 < vlength ?m" using vlength_nonneg [of ?m] by linarith
  have "unit_movement (Vector 0 0 10) (Vector 0 40 10) [cloud_close] = unit ?m"
    unfolding unit_movement_def att rep m Let_def using ne by simp
  also have "vx (unit ?m) = - ?k * (1 / vlength ?m)"
    using ne by (simp add: unit_def)
  finally have "vx (unit_movement (Vector 0 0 10) (Vector 0 40 10) [cloud_close])
                = - ?k * (1 / vlength ?m)" .
  moreover have "- ?k * (1 / vlength ?m) < 0"
    using k pos by (intro mult_neg_pos) simp_all
  ultimately show ?thesis by simp
qed

text \<open>
  Claim C3 as stated, with unit vectors, fails for a cloud at planar distance \<open>1e-20\<close>
  to the east of the drone.  The unit vector from the cloud to the drone is \<open>(-1, 0, 0)\<close>
  and the rule with unit vectors moves the drone to the west of north.  The script
  normalises a vector of squared length \<open>1e-40\<close>, gets the zero vector, adds no
  repulsion and moves the drone due north to \<open>(0, 0.15, 10)\<close>.
\<close>

theorem tiny_distance_repulsion:
  "\<not> vlength (vsub (drone_location drone_north) (target drone_north)) < DRONE_SPEED * 2 \<and>
   planar_distance (drone_location drone_north) (cloud_location cloud_close)
     < DRONE_AVOIDANCE_RADIUS \<and>
   update_drone [hospital_N, hospital_S] [cloud_close] drone_north (sconst 0)
     = Inr (drone_north\<lparr>drone_location := Vector 0 0.15 10\<rparr>, sconst 0) \<and>
   (vadd (Vector 0 0 10)
      (vscale (unit_movement (Vector 0 0 10) (Vector 0 40 10) [cloud_close])
         DRONE_SPEED))\<lparr>vz := DRONE_ALTITUDE\<rparr>
     \<noteq> Vector 0 0.15 10"
proof -
  have near: "planar_distance (drone_location drone_north)
                (cloud_location cloud_close) < DRONE_AVOIDANCE_RADIUS"
    by (simp add: planar_distance_def planar_def drone_north_def cloud_at_def cloud_close_def
        vsub_def Vector_def settings)
  have step: "update_drone [hospital_N, hospital_S] [cloud_close] drone_north
                (sconst 0)
              = Inr (drone_north\<lparr>drone_location := Vector 0 0.15 10\<rparr>, sconst 0)"
    using far_north unfolding update_drone_def
    by (simp add: drone_north_def move_drone_tiny)
  have neg: "vx ((vadd (Vector 0 0 10)
      (vscale (unit_movement (Vector 0 0 10) (Vector 0 40 10) [cloud_close])
         DRONE_SPEED))\<lparr>vz := DRONE_ALTITUDE\<rparr>) < 0"
    using unit_movement_tiny by (simp add: settings)
  have diff: "(vadd (Vector 0 0 10)
      (vscale (unit_movement (Vector 0 0 10) (Vector 0 40 10) [cloud_close])
         DRONE_SPEED))\<lparr>vz := DRONE_ALTITUDE\<rparr>
     \<noteq> Vector 0 0.15 10"
  proof
    let ?p = "(vadd (Vector 0 0 10)
      (vscale (unit_movement (Vector 0 0 10) (Vector 0 40 10) [cloud_close])
         DRONE_SPEED))\<lparr>vz := DRONE_ALTITUDE\<rparr>"
    assume eq: "?p = Vector 0 0.15 10"
    then have "vx ?p = vx (Vector 0 0.15 10)" by (rule arg_cong)
    with neg show False by simp
  qed
  from far_north near step diff show ?thesis by (intro conjI)
qed

lemma update_scene_drone:
  "update_scene s rng = Inr (s', rng') \<Longrightarrow> i < length (drones s) \<Longrightarrow>
   (let d = drones s ! i; d' = drones s' ! i
    in if vlength (vsub (drone_location d) (target d)) < 2 * DRONE_SPEED
       then drone_location d' = (hospital_location (current_hospital d))\<lparr>vz := DRONE_ALTITUDE\<rparr> \<and>
            (\<exists>h \<in> set (hospitals s). h \<noteq> current_hospital d \<and> current_hospital d' = h \<and>
               target d' = (hospital_location h)\<lparr>vz := DRONE_ALTITUDE\<rparr>)
       else drone_location d' = move_drone (drone_location d) (target d) (clouds s') \<and>
            target d' = target d \<and> current_hospital d' = current_hospital d)"
proof -
  assume run: "update_scene s rng = Inr (s', rng')" and i: "i < length (drones s)"
  from update_scene_Inr(4) [OF run i] obtain r r' where
    step: "update_drone (hospitals s) (clouds s') (drones s ! i) r = Inr (drones s' ! i, r')"
    by blast
  show ?thesis
  proof (cases "vlength (vsub (drone_location (drones s ! i)) (target (drones s ! i)))
                < 2 * DRONE_SPEED")
    case True
    with step obtain h where
      h: "choice r (filter (\<lambda>h. h \<noteq> current_hospital (drones s ! i)) (hospitals s)) = Inr (h, r')"
      and d': "drones s' ! i =
        \<lparr>drone_location = (hospital_location (current_hospital (drones s ! i)))\<lparr>vz := DRONE_ALTITUDE\<rparr>,
         target = (hospital_location h)\<lparr>vz := DRONE_ALTITUDE\<rparr>, current_hospital = h\<rparr>"
      by (auto simp: update_drone_def Let_def mult.commute split: sum.splits prod.splits)
    from choice_Inr [OF h] have "h \<in> set (hospitals s)" "h \<noteq> current_hospital (drones s ! i)"
      by simp_all
    with True d' show ?thesis by (simp add: Let_def)
  next
    case False
    with step have "drones s' ! i = (drones s ! i)
      \<lparr>drone_location := move_drone (drone_location (drones s ! i)) (target (drones s ! i)) (clouds s')\<rparr>"
      by (simp add: update_drone_def mult.commute)
    with False show ?thesis by (simp add: Let_def)
  qed
qed

text \<open>
  Claim C1.  In a scene with two different hospitals (or without drones), a call of
  \<open>update_scene\<close> returns, and for every drone of the list: when the distance from the
  drone's location to its target is below \<open>2 * DRONE_SPEED\<close>, the drone's location
  becomes the location of the stored hospital with \<open>z\<close> set to \<open>DRONE_ALTITUDE\<close>, the
  stored hospital becomes a hospital \<open>h\<close> of the list different from the one stored
  before, and the target becomes the location of \<open>h\<close> with \<open>z\<close> set to
  \<open>DRONE_ALTITUDE\<close>; \<open>move_drone\<close> has no part in the new location.  Otherwise the new
  location is that of \<open>move_drone\<close>, and the target and the stored hospital stay.
\<close>

theorem arrival_and_retargeting:
  "can_retarget s \<Longrightarrow>
   \<exists>s' rng'. update_scene s rng = Inr (s', rng') \<and>
     (\<forall>i < length (drones s).
        let d = drones s ! i; d' = drones s' ! i
        in if vlength (vsub (drone_location d) (target d)) < 2 * DRONE_SPEED
           then drone_location d'
                  = (hospital_location (current_hospital d))\<lparr>vz := DRONE_ALTITUDE\<rparr> \<and>
                (\<exists>h \<in> set (hospitals s). h \<noteq> current_hospital d \<and> current_hospital d' = h \<and>
                   target d' = (hospital_location h)\<lparr>vz := DRONE_ALTITUDE\<rparr>)
           else drone_location d' = move_drone (drone_location d) (target d) (clouds s') \<and>
                target d' = target d \<and> current_hospital d' = current_hospital d)"
proof -
  assume "can_retarget s"
  from update_scene_total [OF this, of rng] obtain s' rng' where
    run: "update_scene s rng = Inr (s', rng')" by blast
  from update_scene_drone [OF run] run show ?thesis by blast
qed

lemma scenario_tick:
  "update_scene scenario (sconst 0)
   = Inr (scenario\<lparr>drones := [\<lparr>drone_location = Vector 0 0 10, target = Vector 10 0 10,
                                current_hospital = hospital_B\<rparr>]\<rparr>, sconst 0)"
  by (simp add: update_scene_def scenario_def update_drone_def choice_def hospital_A_def
      hospital_B_def vsub_def Vector_def settings)

lemma can_retarget_scenario: "can_retarget scenario"
  by (auto simp: can_retarget_def scenario_def hospital_A_def hospital_B_def)

text \<open>
  In the scenario the drone is \<open>0.1\<close> from its target: it is put at \<open>(0, 0, 10)\<close> over
  hospital A, and the only hospital other than A, which is B, is stored and targeted.
\<close>

theorem arrival_and_retargeting_witness:
  "can_retarget scenario \<and>
   update_scene scenario (sconst 0)
     = Inr (scenario\<lparr>drones := [\<lparr>drone_location = Vector 0 0 10, target = Vector 10 0 10,
                                  current_hospital = hospital_B\<rparr>]\<rparr>, sconst 0) \<and>
   vlength (vsub (Vector 9.9 0 10) (Vector 10 0 10)) < 2 * DRONE_SPEED \<and>
   Vector 0 0 10 = (hospital_location hospital_A)\<lparr>vz := DRONE_ALTITUDE\<rparr> \<and>
   (\<exists>h \<in> set [hospital_A, hospital_B]. h \<noteq> hospital_A \<and> hospital_B = h \<and>
      Vector 10 0 10 = (hospital_location h)\<lparr>vz := DRONE_ALTITUDE\<rparr>)"
proof -
  have near: "vlength (vsub (Vector 9.9 0 10) (Vector 10 0 10)) < 2 * DRONE_SPEED"
    by (simp add: vsub_def Vector_def settings)
  from arrival_and_retargeting [OF can_retarget_scenario, of "sconst 0"] obtain s' rng' where
    run: "update_scene scenario (sconst 0) = Inr (s', rng')" and
    all: "\<forall>i < length (drones scenario).
        let d = drones scenario ! i; d' = drones s' ! i
        in if vlength (vsub (drone_location d) (target d)) < 2 * DRONE_SPEED
           then drone_location d'
                  = (hospital_location (current_hospital d))\<lparr>vz := DRONE_ALTITUDE\<rparr> \<and>
                (\<exists>h \<in> set (hospitals scenario). h \<noteq> current_hospital d \<and>
                   current_hospital d' = h \<and>
                   target d' = (hospital_location h)\<lparr>vz := DRONE_ALTITUDE\<rparr>)
           else drone_location d' = move_drone (drone_location d) (target d) (clouds s') \<and>
                target d' = target d \<and> current_hospital d' = current_hospital d"
    by blast
  from run scenario_tick have s': "s' = scenario\<lparr>drones :=
      [\<lparr>drone_location = Vector 0 0 10, target = Vector 10 0 10,
        current_hospital = hospital_B\<rparr>]\<rparr>"
    by simp
  from all near have
    "Vector 0 0 10 = (hospital_location hospital_A)\<lparr>vz := DRONE_ALTITUDE\<rparr> \<and>
     (\<exists>h \<in> set [hospital_A, hospital_B]. h \<noteq> hospital_A \<and> hospital_B = h \<and>
        Vector 10 0 10 = (hospital_location h)\<lparr>vz := DRONE_ALTITUDE\<rparr>)"
    unfolding s' by (simp add: scenario_def Let_def)
  with can_retarget_scenario scenario_tick near show ?thesis by (intro conjI) simp_all
qed

text \<open>
  Claim C5.  In a scene with two different hospitals (or without drones) a tick returns;
  the clouds of the new scene are the moved clouds, and every drone that is moved in
  that tick is moved by \<open>move_drone\<close> against the moved clouds: the cloud controller has
  run over all clouds before the first drone is handled, and the repulsion reads the
  cloud positions of the same tick.
\<close>

theorem clouds_before_drones:
  "can_retarget s \<Longrightarrow>
   \<exists>s' rng'. update_scene s rng = Inr (s', rng') \<and>
     clouds s' = move_clouds (hospitals s) (clouds s) \<and>
     (\<forall>i < length (drones s).
        \<not> vlength (vsub (drone_location (drones s ! i)) (target (drones s ! i)))
            < DRONE_SPEED * 2 \<longrightarrow>
        drone_location (drones s' ! i)
          = move_drone (drone_location (drones s ! i)) (target (drones s ! i))
              (move_clouds (hospitals s) (clouds s)))"
proof -
  assume "can_retarget s"
  from update_scene_total [OF this, of rng] obtain s' rng' where
    run: "update_scene s rng = Inr (s', rng')" by blast
  note cs = update_scene_Inr(2) [OF run]
  have "drone_location (drones s' ! i)
        = move_drone (drone_location (drones s ! i)) (target (drones s ! i))
            (move_clouds (hospitals s) (clouds s))"
    if i: "i < length (drones s)"
      and far: "\<not> vlength (vsub (drone_location (drones s ! i)) (target (drones s ! i)))
                   < DRONE_SPEED * 2"
    for i
  proof -
    from update_scene_Inr(4) [OF run i] obtain r r' where
      "update_drone (hospitals s) (clouds s') (drones s ! i) r = Inr (drones s' ! i, r')"
      by blast
    with far have "drones s' ! i = (drones s ! i)
      \<lparr>drone_location := move_drone (drone_location (drones s ! i)) (target (drones s ! i)) (clouds s')\<rparr>"
      by (simp add: update_drone_def)
    then show ?thesis by (simp add: cs)
  qed
  with cs run show ?thesis by blast
qed

lemma move_cloud_at:
  "\<bar>a - 0.1\<bar> \<le> 50 \<Longrightarrow>
   move_cloud [hospital_N, hospital_S] (cloud_at a) = cloud_at (a - 0.1)"
  by (simp add: move_cloud_def cloud_at_def Let_def near_hospital_def settings vadd_def
      vscale_def vsub_def Vector_def hospital_N_def hospital_S_def vlength_ge_vy)

lemma can_retarget_approach: "can_retarget approach"
  by (auto simp: can_retarget_def approach_def hospital_N_def hospital_S_def)

lemma approach_tick:
  "update_scene approach (sconst 0)
   = Inr (approach\<lparr>clouds := [cloud_at 3],
            drones := [drone_north\<lparr>drone_location := Vector (- 0.09) 0.12 10\<rparr>]\<rparr>, sconst 0)"
proof -
  have "move_cloud [hospital_N, hospital_S] (cloud_at 3.1) = cloud_at 3"
    using move_cloud_at [of "3.1"] by simp
  then show ?thesis
    using far_north
    by (simp add: update_scene_def approach_def update_drone_def)
       (simp add: drone_north_def move_drone_example)
qed

lemma move_drone_stale:
  "move_drone (Vector 0 0 10) (Vector 0 40 10) [cloud_at 3.1] \<noteq> Vector (- 0.09) 0.12 10"
proof
  let ?m = "\<lparr>vx = - (29 / 40), vy = 1, vz = 0\<rparr> :: vec"
  assume eq: "move_drone (Vector 0 0 10) (Vector 0 40 10) [cloud_at 3.1] = Vector (- 0.09) 0.12 10"
  have sq: "(vlength ?m)\<^sup>2 = 2441 / 1600"
    by (simp add: vlength_sq length_squared_def)
  then have "vlength ?m \<noteq> 0" by auto
  then have pos: "0 < vlength ?m" using vlength_nonneg [of ?m] by linarith
  have "vy (move_drone (Vector 0 0 10) (Vector 0 40 10) [cloud_at 3.1]) = 3 / 20 / vlength ?m"
    using pos
    by (simp add: move_drone_def Let_def settings normalized_def length_squared_def vsub_def
        vadd_def vscale_def Vector_def Vector0_def cloud_at_def)
  with eq have "3 / 20 / vlength ?m = 0.12" by simp
  with pos have "vlength ?m = 5 / 4" by (simp add: field_simps)
  with sq show False by (simp add: power2_eq_square)
qed

text \<open>
  A cloud drifting from distance \<open>3.1\<close> to \<open>3\<close> in the tick: the drone lands where the
  repulsion of the cloud at distance \<open>3\<close> puts it, and the cloud at the distance
  \<open>3.1\<close> it had before the tick would have put it elsewhere.
\<close>

theorem clouds_before_drones_witness:
  "can_retarget approach \<and>
   update_scene approach (sconst 0)
     = Inr (approach\<lparr>clouds := [cloud_at 3],
              drones := [drone_north\<lparr>drone_location := Vector (- 0.09) 0.12 10\<rparr>]\<rparr>, sconst 0) \<and>
   clouds approach = [cloud_at 3.1] \<and>
   move_clouds (hospitals approach) (clouds approach) = [cloud_at 3] \<and>
   move_drone (Vector 0 0 10) (Vector 0 40 10) [cloud_at 3] = Vector (- 0.09) 0.12 10 \<and>
   move_drone (Vector 0 0 10) (Vector 0 40 10) [cloud_at 3.1] \<noteq> Vector (- 0.09) 0.12 10"
proof -
  from clouds_before_drones [OF can_retarget_approach, of "sconst 0"] obtain s' rng' where
    run: "update_scene approach (sconst 0) = Inr (s', rng')" and
    cs: "clouds s' = move_clouds (hospitals approach) (clouds approach)"
    by blast
  from run approach_tick have "s' = approach\<lparr>clouds := [cloud_at 3],
      drones := [drone_north\<lparr>drone_location := Vector (- 0.09) 0.12 10\<rparr>]\<rparr>"
    by simp
  with cs have mc: "move_clouds (hospitals approach) (clouds approach) = [cloud_at 3]"
    by simp
  have c0: "clouds approach = [cloud_at 3.1]" by (simp add: approach_def)
  from can_retarget_approach approach_tick c0 mc move_drone_example move_drone_stale
  show ?thesis by (intro conjI)
qed

section \<open>The repulsion of one cloud\<close>











section \<open>What the stored hospital is\<close>

lemma init_drones_departs:
  "init_drones n hs rng = Inr (ds, rng') \<Longrightarrow>
   \<forall>d \<in> set ds. departs_from d (current_hospital d) \<and> current_hospital d \<in> set hs"
proof (induction n arbitrary: rng ds)
  case 0
  then show ?case by simp
next
  case (Suc n)
  from Suc.prems obtain h1 r1 h2 r2 ds1 where
    c1: "choice rng hs = Inr (h1, r1)" and
    c2: "choice r1 (filter (\<lambda>h. h \<noteq> h1) hs) = Inr (h2, r2)" and
    rest: "init_drones n hs r2 = Inr (ds1, rng')" and
    ds: "ds = \<lparr>drone_location = (hospital_location h1)\<lparr>vz := DRONE_ALTITUDE\<rparr>,
               target = (hospital_location h2)\<lparr>vz := DRONE_ALTITUDE\<rparr>,
               current_hospital = h1\<rparr> # ds1"
    by (auto simp: Let_def split: sum.splits prod.splits)
  from choice_Inr [OF c1] have "h1 \<in> set hs" by simp
  with Suc.IH [OF rest] show ?case by (simp add: ds departs_from_def)
qed

text \<open>
  Claim C4, as amended.  The hospital stored in a drone's entry is the hospital excluded
  when the next target is picked and the place the drone is put on arrival.  After the
  initialisation it is the hospital the drone starts from.  A tick in which the drone
  arrives puts the drone at the stored hospital and then stores the newly picked
  hospital, which is the hospital of the new target; a tick without arrival keeps both.
  So once a drone has been retargeted, the stored hospital is the hospital it flies to,
  and it stays so in every later tick.
\<close>

theorem stored_hospital_role:
  "(update_scene s rng = Inr (s', rng') \<and> i < length (drones s) \<longrightarrow>
    (let d = drones s ! i; d' = drones s' ! i
     in (vlength (vsub (drone_location d) (target d)) < DRONE_SPEED * 2 \<longrightarrow>
           current_hospital d' \<in> set (hospitals s) \<and>
           current_hospital d' \<noteq> current_hospital d \<and>
           departs_from d' (current_hospital d) \<and>
           heads_to d' (current_hospital d')) \<and>
        (\<not> vlength (vsub (drone_location d) (target d)) < DRONE_SPEED * 2 \<longrightarrow>
           current_hospital d' = current_hospital d \<and> target d' = target d) \<and>
        (heads_to d (current_hospital d) \<longrightarrow> heads_to d' (current_hospital d')))) \<and>
   (init_drones n hs rng0 = Inr (ds0, rng1) \<longrightarrow>
    (\<forall>d \<in> set ds0. departs_from d (current_hospital d)))"
proof -
  have tick: "(let d = drones s ! i; d' = drones s' ! i
     in (vlength (vsub (drone_location d) (target d)) < DRONE_SPEED * 2 \<longrightarrow>
           current_hospital d' \<in> set (hospitals s) \<and>
           current_hospital d' \<noteq> current_hospital d \<and>
           departs_from d' (current_hospital d) \<and>
           heads_to d' (current_hospital d')) \<and>
        (\<not> vlength (vsub (drone_location d) (target d)) < DRONE_SPEED * 2 \<longrightarrow>
           current_hospital d' = current_hospital d \<and> target d' = target d) \<and>
        (heads_to d (current_hospital d) \<longrightarrow> heads_to d' (current_hospital d')))"
    if run: "update_scene s rng = Inr (s', rng')" and i: "i < length (drones s)"
  proof -
    from update_scene_Inr(4) [OF run i] obtain r r' where
      step: "update_drone (hospitals s) (clouds s') (drones s ! i) r = Inr (drones s' ! i, r')"
      by blast
    show ?thesis
    proof (cases "vlength (vsub (drone_location (drones s ! i)) (target (drones s ! i)))
                  < DRONE_SPEED * 2")
      case True
      with step obtain h where
        h: "choice r (filter (\<lambda>h. h \<noteq> current_hospital (drones s ! i)) (hospitals s))
            = Inr (h, r')"
        and d': "drones s' ! i =
          \<lparr>drone_location =
             (hospital_location (current_hospital (drones s ! i)))\<lparr>vz := DRONE_ALTITUDE\<rparr>,
           target = (hospital_location h)\<lparr>vz := DRONE_ALTITUDE\<rparr>, current_hospital = h\<rparr>"
        by (auto simp: update_drone_def Let_def split: sum.splits prod.splits)
      from choice_Inr [OF h] have "h \<in> set (hospitals s)"
        "h \<noteq> current_hospital (drones s ! i)"
        by simp_all
      with True d' show ?thesis by (simp add: Let_def departs_from_def heads_to_def)
    next
      case False
      with step have "drones s' ! i = (drones s ! i)
        \<lparr>drone_location :=
           move_drone (drone_location (drones s ! i)) (target (drones s ! i)) (clouds s')\<rparr>"
        by (simp add: update_drone_def)
      with False show ?thesis by (simp add: Let_def heads_to_def)
    qed
  qed
  from tick init_drones_departs [of n hs rng0 ds0 rng1] show ?thesis by blast
qed

lemma init_example:
  "init_drones 1 [hospital_A, hospital_B] (sconst 0)
   = Inr ([\<lparr>drone_location = Vector 0 0 10, target = Vector 10 0 10,
            current_hospital = hospital_A\<rparr>], sconst 0)"
  by (simp add: choice_def hospital_A_def hospital_B_def Vector_def settings)

text \<open>
  The scenario: the initialisation with hospitals A and B stores A, where the drone
  starts; the tick of arrival puts the drone at A and stores B, its new target.
\<close>

theorem stored_hospital_role_witness:
  "update_scene scenario (sconst 0)
     = Inr (scenario\<lparr>drones := [\<lparr>drone_location = Vector 0 0 10, target = Vector 10 0 10,
                                  current_hospital = hospital_B\<rparr>]\<rparr>, sconst 0) \<and>
   0 < length (drones scenario) \<and>
   vlength (vsub (Vector 9.9 0 10) (Vector 10 0 10)) < DRONE_SPEED * 2 \<and>
   (hospital_B \<in> set (hospitals scenario) \<and> hospital_B \<noteq> hospital_A \<and>
    departs_from \<lparr>drone_location = Vector 0 0 10, target = Vector 10 0 10,
                  current_hospital = hospital_B\<rparr> hospital_A \<and>
    heads_to \<lparr>drone_location = Vector 0 0 10, target = Vector 10 0 10,
              current_hospital = hospital_B\<rparr> hospital_B) \<and>
   init_drones 1 [hospital_A, hospital_B] (sconst 0)
     = Inr ([\<lparr>drone_location = Vector 0 0 10, target = Vector 10 0 10,
              current_hospital = hospital_A\<rparr>], sconst 0) \<and>
   departs_from \<lparr>drone_location = Vector 0 0 10, target = Vector 10 0 10,
                 current_hospital = hospital_A\<rparr> hospital_A"
proof -
  let ?d1 = "\<lparr>drone_location = Vector 0 0 10, target = Vector 10 0 10,
              current_hospital = hospital_B\<rparr>"
  let ?d0 = "\<lparr>drone_location = Vector 0 0 10, target = Vector 10 0 10,
              current_hospital = hospital_A\<rparr>"
  note T = stored_hospital_role
    [of scenario "sconst 0" "scenario\<lparr>drones := [?d1]\<rparr>" "sconst 0" 0
        1 "[hospital_A, hospital_B]" "sconst 0" "[?d0]" "sconst 0"]
  have len: "0 < length (drones scenario)" by (simp add: scenario_def)
  have near: "vlength (vsub (Vector 9.9 0 10) (Vector 10 0 10)) < DRONE_SPEED * 2"
    by (simp add: vsub_def Vector_def settings)
  from mp [OF T [THEN conjunct1] conjI [OF scenario_tick len]] near
  have tick: "hospital_B \<in> set (hospitals scenario) \<and> hospital_B \<noteq> hospital_A \<and>
              departs_from ?d1 hospital_A \<and> heads_to ?d1 hospital_B"
    by (simp add: Let_def scenario_def)
  from mp [OF T [THEN conjunct2] init_example]
  have init: "departs_from ?d0 hospital_A" by simp
  show ?thesis
    by (intro conjI scenario_tick len near tick init_example init)
qed

text \<open>
  Claim C4 as stated fails at the first arrival: after the tick the drone has just left
  from hospital A, and its entry stores hospital B, over which it does not stand.
\<close>

theorem stored_hospital_not_departure:
  "update_scene scenario (sconst 0)
     = Inr (scenario\<lparr>drones := [\<lparr>drone_location = Vector 0 0 10, target = Vector 10 0 10,
                                  current_hospital = hospital_B\<rparr>]\<rparr>, sconst 0) \<and>
   departs_from \<lparr>drone_location = Vector 0 0 10, target = Vector 10 0 10,
                 current_hospital = hospital_B\<rparr> hospital_A \<and>
   \<not> departs_from \<lparr>drone_location = Vector 0 0 10, target = Vector 10 0 10,
                   current_hospital = hospital_B\<rparr> hospital_B"
  using scenario_tick
  by (simp add: departs_from_def hospital_A_def hospital_B_def Vector_def settings)

section \<open>The placement loops\<close>

lemma sdrop_stl_stl: "sdrop (2 * k) (stl (stl us)) = sdrop (2 * Suc k) us"
  by simp

lemma sdrop_sconst [simp]: "sdrop n (sconst x) = sconst x"
  by (induction n) simp_all

lemma place_accept:
  "ok (sample_position z us) \<Longrightarrow> place ok z us = Some (sample_position z us, stl (stl us))"
  by (subst place.simps) simp

lemma place_reject:
  "\<not> ok (sample_position z us) \<Longrightarrow> place ok z us = place ok z (stl (stl us))"
  by (subst place.simps) simp

lemma first_accepted_0: "ok (sample_position z us) \<Longrightarrow> first_accepted ok z us 0"
  by (simp add: first_accepted_def)

lemma first_accepted_Suc:
  "\<not> ok (sample_position z us) \<Longrightarrow> first_accepted ok z (stl (stl us)) k \<Longrightarrow>
   first_accepted ok z us (Suc k)"
proof -
  assume no: "\<not> ok (sample_position z us)" and fa: "first_accepted ok z (stl (stl us)) k"
  have "\<not> ok (sample_position z (sdrop (2 * j) us))" if "j < Suc k" for j
  proof (cases j)
    case 0
    with no show ?thesis by simp
  next
    case (Suc j')
    with that fa have "\<not> ok (sample_position z (sdrop (2 * j') (stl (stl us))))"
      by (simp add: first_accepted_def)
    then show ?thesis by (simp add: Suc)
  qed
  with fa show ?thesis by (simp add: first_accepted_def)
qed

lemma place_Some:
  assumes "place ok z us = Some r"
  shows "\<exists>k. first_accepted ok z us k \<and>
             r = (sample_position z (sdrop (2 * k) us), sdrop (2 * k + 2) us)"
proof (rule place.raw_induct
    [where P = "\<lambda>ok z us r. \<exists>k. first_accepted ok z us k \<and>
                  r = (sample_position z (sdrop (2 * k) us), sdrop (2 * k + 2) us)",
     OF _ assms])
  fix place' :: "(vec \<Rightarrow> bool) \<Rightarrow> real \<Rightarrow> real stream \<Rightarrow> (vec \<times> real stream) option"
    and ok z us r
  assume IH: "\<And>ok z us r. place' ok z us = Some r \<Longrightarrow>
      \<exists>k. first_accepted ok z us k \<and>
          r = (sample_position z (sdrop (2 * k) us), sdrop (2 * k + 2) us)"
    and eq: "(if ok (sample_position z us) then Some (sample_position z us, stl (stl us))
             else place' ok z (stl (stl us))) = Some r"
  show "\<exists>k. first_accepted ok z us k \<and>
          r = (sample_position z (sdrop (2 * k) us), sdrop (2 * k + 2) us)"
  proof (cases "ok (sample_position z us)")
    case True
    with eq have "r = (sample_position z (sdrop (2 * 0) us), sdrop (2 * 0 + 2) us)"
      by auto
    with first_accepted_0 [of ok z us, OF True] show ?thesis by blast
  next
    case False
    with eq have "place' ok z (stl (stl us)) = Some r" by simp
    from IH [OF this] obtain k where
      fa: "first_accepted ok z (stl (stl us)) k" and
      r: "r = (sample_position z (sdrop (2 * k) (stl (stl us))), sdrop (2 * k + 2) (stl (stl us)))"
      by blast
    from r have "r = (sample_position z (sdrop (2 * Suc k) us), sdrop (2 * Suc k + 2) us)"
      by simp
    with first_accepted_Suc [of ok z us k, OF False fa] show ?thesis by blast
  qed
qed

lemma place_terminates:
  "ok (sample_position z (sdrop (2 * k) us)) \<Longrightarrow> \<exists>r. place ok z us = Some r"
proof (induction k arbitrary: us)
  case 0
  then show ?case using place_accept [of ok z us] by simp
next
  case (Suc k)
  show ?case
  proof (cases "ok (sample_position z us)")
    case True
    then show ?thesis using place_accept [of ok z us] by simp
  next
    case False
    from Suc.prems have "ok (sample_position z (sdrop (2 * k) (stl (stl us))))" by simp
    then have "\<exists>r. place ok z (stl (stl us)) = Some r" by (rule Suc.IH)
    with place_reject [of ok z us] False show ?thesis by simp
  qed
qed

lemma place_None_iff:
  "place ok z us = None \<longleftrightarrow> (\<forall>k. \<not> ok (sample_position z (sdrop (2 * k) us)))"
proof
  assume none: "place ok z us = None"
  show "\<forall>k. \<not> ok (sample_position z (sdrop (2 * k) us))"
  proof (intro allI notI)
    fix k assume "ok (sample_position z (sdrop (2 * k) us))"
    then have "\<exists>r. place ok z us = Some r" by (rule place_terminates)
    with none show False by simp
  qed
next
  assume never: "\<forall>k. \<not> ok (sample_position z (sdrop (2 * k) us))"
  show "place ok z us = None"
  proof (cases "place ok z us")
    case None
    then show ?thesis .
  next
    case (Some r)
    from place_Some [OF Some] never show ?thesis by (auto simp: first_accepted_def)
  qed
qed

lemma place_result:
  "place ok z us = Some (pos, us') \<Longrightarrow> vz pos = z \<and> ok pos"
  by (drule place_Some) (auto simp: sample_position_def first_accepted_def)

text \<open>
  Claim C8, as amended.  The placement loop has no retry budget and raises no error.  It
  returns exactly when some round samples a position that its test accepts; it then
  returns the position of the first such round, having read two draws per round.  When
  no round samples an accepted position the loop never returns.  The hospital loop is
  \<open>place (hospital_ok ps)\<close>, the cloud loop is \<open>place (cloud_ok cs ps)\<close>.
\<close>

theorem placement_search:
  "(place ok z us = None \<longleftrightarrow> (\<forall>k. \<not> ok (sample_position z (sdrop (2 * k) us)))) \<and>
   (\<forall>pos us'. place ok z us = Some (pos, us') \<longrightarrow>
      (\<exists>k. first_accepted ok z us k \<and>
           pos = sample_position z (sdrop (2 * k) us) \<and> us' = sdrop (2 * k + 2) us))"
proof -
  have "\<exists>k. first_accepted ok z us k \<and>
           pos = sample_position z (sdrop (2 * k) us) \<and> us' = sdrop (2 * k + 2) us"
    if "place ok z us = Some (pos, us')" for pos us'
    using place_Some [OF that] by auto
  with place_None_iff [of ok z us] show ?thesis by blast
qed

lemma sample_position_half [simp]: "sample_position z (sconst (1 / 2)) = Vector 0 0 z"
  by (simp add: sample_position_def uniform_def settings)

lemma place_stuck:
  "\<not> ok (Vector 0 0 z) \<Longrightarrow> place ok z (sconst (1 / 2)) = None"
  by (simp add: place_None_iff)

lemma hospital_stuck: "\<not> hospital_ok [Vector 0 0 4] (Vector 0 0 4)"
  by (simp add: hospital_ok_def vsub_def Vector_def settings)

lemma cloud_stuck: "\<not> cloud_ok [Vector 0 0 10] hps (Vector 0 0 10)"
  by (simp add: cloud_ok_def vsub_def Vector_def settings)

text \<open>
  Claim C8 as stated fails: on the draws \<open>1/2, 1/2, \<dots>\<close> every sampled position is the
  centre of the city.  The first hospital is placed there, and the loop for the second
  hospital rejects the same position in every round and never returns; so the script
  with three drones and five hospitals never finishes its setup and raises nothing.  The
  cloud loop does the same for its second cloud.
\<close>

theorem placement_never_returns:
  "build_scene 3 5 (sconst (1 / 2)) (sconst 0) = None \<and>
   create_hospitals 2 [] (sconst (1 / 2)) = None \<and>
   create_clouds 2 [] [] (sconst (1 / 2)) = None"
proof -
  have first: "place (hospital_ok []) (HOSPITAL_HEIGHT / 2) (sconst (1 / 2))
               = Some (Vector 0 0 4, sconst (1 / 2))"
    by (simp add: place_accept hospital_ok_def settings)
  have second: "place (hospital_ok [Vector 0 0 4]) (HOSPITAL_HEIGHT / 2) (sconst (1 / 2)) = None"
    using hospital_stuck by (simp add: place_stuck settings)
  have h: "create_hospitals (Suc (Suc n)) [] (sconst (1 / 2)) = None" for n
    by (simp add: first second)
  have c1: "place (cloud_ok [] []) CLOUD_ALTITUDE (sconst (1 / 2))
            = Some (Vector 0 0 10, sconst (1 / 2))"
    by (simp add: place_accept cloud_ok_def settings)
  have c2: "place (cloud_ok [Vector 0 0 10] []) CLOUD_ALTITUDE (sconst (1 / 2)) = None"
    using cloud_stuck [of "[]"] by (simp add: place_stuck settings)
  have c: "create_clouds (Suc (Suc 0)) [] [] (sconst (1 / 2)) = None"
    by (simp add: c1 c2)
  have "build_scene 3 5 (sconst (1 / 2)) (sconst 0) = None"
    using h [of 3] by (simp add: build_scene_def eval_nat_numeral)
  moreover have "create_hospitals 2 [] (sconst (1 / 2)) = None"
    using h [of 0] by (simp add: eval_nat_numeral)
  moreover have "create_clouds 2 [] [] (sconst (1 / 2)) = None"
    using c by (simp add: eval_nat_numeral)
  ultimately show ?thesis by blast
qed

lemma place_example:
  "place (hospital_ok [Vector 0 0 4]) 4 ([1 / 2, 1 / 2, 3 / 5, 1 / 2] @- sconst (1 / 2))
   = Some (Vector 10 0 4, sconst (1 / 2))"
proof -
  have no: "\<not> hospital_ok [Vector 0 0 4]
              (sample_position 4 ([1 / 2, 1 / 2, 3 / 5, 1 / 2] @- sconst (1 / 2)))"
    by (simp add: hospital_ok_def sample_position_def uniform_def vsub_def Vector_def settings)
  have yes: "hospital_ok [Vector 0 0 4] (sample_position 4 ([3 / 5, 1 / 2] @- sconst (1 / 2)))"
    by (simp add: hospital_ok_def sample_position_def uniform_def vsub_def Vector_def settings)
  have "place (hospital_ok [Vector 0 0 4]) 4 ([1 / 2, 1 / 2, 3 / 5, 1 / 2] @- sconst (1 / 2))
        = place (hospital_ok [Vector 0 0 4]) 4 ([3 / 5, 1 / 2] @- sconst (1 / 2))"
    using place_reject
      [of "hospital_ok [Vector 0 0 4]" 4 "[1 / 2, 1 / 2, 3 / 5, 1 / 2] @- sconst (1 / 2)", OF no]
    by simp
  also have "\<dots> = Some (sample_position 4 ([3 / 5, 1 / 2] @- sconst (1 / 2)), sconst (1 / 2))"
    using place_accept [of "hospital_ok [Vector 0 0 4]" 4 "[3 / 5, 1 / 2] @- sconst (1 / 2)", OF yes]
    by simp
  also have "sample_position 4 ([3 / 5, 1 / 2] @- sconst (1 / 2)) = Vector 10 0 4"
    by (simp add: sample_position_def uniform_def settings)
  finally show ?thesis .
qed

text \<open>
  With a hospital at the centre, the first round samples the centre and is rejected, the
  second samples \<open>(10, 0, 4)\<close> and is accepted.
\<close>

theorem placement_search_witness:
  "place (hospital_ok [Vector 0 0 4]) 4 ([1 / 2, 1 / 2, 3 / 5, 1 / 2] @- sconst (1 / 2))
     = Some (Vector 10 0 4, sconst (1 / 2)) \<and>
   (\<exists>k. first_accepted (hospital_ok [Vector 0 0 4]) 4
          ([1 / 2, 1 / 2, 3 / 5, 1 / 2] @- sconst (1 / 2)) k \<and>
        Vector 10 0 4
          = sample_position 4 (sdrop (2 * k) ([1 / 2, 1 / 2, 3 / 5, 1 / 2] @- sconst (1 / 2))) \<and>
        (sconst (1 / 2) :: real stream)
          = sdrop (2 * k + 2) ([1 / 2, 1 / 2, 3 / 5, 1 / 2] @- sconst (1 / 2))) \<and>
   \<not> (\<forall>k. \<not> hospital_ok [Vector 0 0 4]
          (sample_position 4 (sdrop (2 * k) ([1 / 2, 1 / 2, 3 / 5, 1 / 2] @- sconst (1 / 2)))))"
proof -
  let ?us = "[1 / 2, 1 / 2, 3 / 5, 1 / 2] @- sconst (1 / 2) :: real stream"
  note T = placement_search [of "hospital_ok [Vector 0 0 4]" 4 ?us]
  from T [THEN conjunct2, rule_format, OF place_example]
  have a: "\<exists>k. first_accepted (hospital_ok [Vector 0 0 4]) 4 ?us k \<and>
        Vector 10 0 4 = sample_position 4 (sdrop (2 * k) ?us) \<and>
        sconst (1 / 2) = sdrop (2 * k + 2) ?us" .
  from T [THEN conjunct1] place_example
  have b: "\<not> (\<forall>k. \<not> hospital_ok [Vector 0 0 4] (sample_position 4 (sdrop (2 * k) ?us)))"
    by simp
  from place_example a b show ?thesis by (intro conjI)
qed

section \<open>Invariants of the setup\<close>

lemma normalized_vz: "vz a = 0 \<Longrightarrow> vz (normalized a) = 0"
  by (simp add: normalized_def)

lemma sample_direction_vz [simp]: "vz (sample_direction us) = 0"
  by (simp add: sample_direction_def normalized_vz)

lemma create_clouds_level:
  "create_clouds n hs cs us = Some (cs', us') \<Longrightarrow>
   \<forall>c \<in> set cs. vz (cloud_location c) = CLOUD_ALTITUDE \<and> vz (cloud_direction c) = 0 \<Longrightarrow>
   \<forall>c \<in> set cs'. vz (cloud_location c) = CLOUD_ALTITUDE \<and> vz (cloud_direction c) = 0"
proof (induction n arbitrary: cs us)
  case 0
  then show ?case by simp
next
  case (Suc n)
  from Suc.prems(1) obtain pos us1 where
    p: "place (cloud_ok (map cloud_location cs) (map hospital_location hs)) CLOUD_ALTITUDE us
        = Some (pos, us1)" and
    rest: "create_clouds n hs
             (cs @ [\<lparr>cloud_location = pos, cloud_direction = sample_direction us1\<rparr>])
             (stl (stl us1)) = Some (cs', us')"
    by (auto split: option.splits)
  from place_result [OF p] have "vz pos = CLOUD_ALTITUDE" by simp
  with Suc.prems(2) have
    "\<forall>c \<in> set (cs @ [\<lparr>cloud_location = pos, cloud_direction = sample_direction us1\<rparr>]).
       vz (cloud_location c) = CLOUD_ALTITUDE \<and> vz (cloud_direction c) = 0"
    by simp
  from Suc.IH [OF rest this] show ?case .
qed

lemma init_drones_level:
  "init_drones n hs rng = Inr (ds, rng') \<Longrightarrow>
   (\<forall>d \<in> set ds. vz (drone_location d) = DRONE_ALTITUDE) \<and>
   (ds = [] \<or> (\<exists>a \<in> set hs. \<exists>b \<in> set hs. a \<noteq> b))"
proof (induction n arbitrary: rng ds)
  case 0
  then show ?case by simp
next
  case (Suc n)
  from Suc.prems obtain h1 r1 h2 r2 ds1 where
    c1: "choice rng hs = Inr (h1, r1)" and
    c2: "choice r1 (filter (\<lambda>h. h \<noteq> h1) hs) = Inr (h2, r2)" and
    rest: "init_drones n hs r2 = Inr (ds1, rng')" and
    ds: "ds = \<lparr>drone_location = (hospital_location h1)\<lparr>vz := DRONE_ALTITUDE\<rparr>,
               target = (hospital_location h2)\<lparr>vz := DRONE_ALTITUDE\<rparr>,
               current_hospital = h1\<rparr> # ds1"
    by (auto simp: Let_def split: sum.splits prod.splits)
  from choice_Inr [OF c1] choice_Inr [OF c2]
  have "h1 \<in> set hs" "h2 \<in> set hs" "h2 \<noteq> h1" by simp_all
  then have "\<exists>a \<in> set hs. \<exists>b \<in> set hs. a \<noteq> b" by blast
  with Suc.IH [OF rest] show ?case by (simp add: ds)
qed

lemma build_scene_invariants:
  "build_scene num_drones num_hospitals us rng = Some (Inr (s, rng')) \<Longrightarrow>
   level s \<and> can_retarget s"
proof -
  assume b: "build_scene num_drones num_hospitals us rng = Some (Inr (s, rng'))"
  then obtain hs us1 cs us2 ds where
    "create_hospitals num_hospitals [] us = Some (hs, us1)" and
    c: "create_clouds (num_hospitals * 2) hs [] us1 = Some (cs, us2)" and
    d: "init_drones num_drones hs rng = Inr (ds, rng')" and
    s: "s = \<lparr>hospitals = hs, clouds = cs, drones = ds\<rparr>"
    by (auto simp: build_scene_def split: option.splits sum.splits prod.splits)
  from create_clouds_level [OF c] init_drones_level [OF d]
  show ?thesis by (simp add: s level_def can_retarget_def)
qed

text \<open>
  Claim C6.  In a scene that the script has set up, every cloud and every drone starts at
  the altitude \<open>CLOUD_ALTITUDE = DRONE_ALTITUDE\<close>, and every cloud has a horizontal
  heading.  From such a scene any number \<open>n\<close> of ticks runs without an exception, and
  afterwards the \<open>z\<close> coordinate of every cloud is \<open>CLOUD_ALTITUDE\<close> and that of every
  drone is \<open>DRONE_ALTITUDE\<close>.
\<close>

theorem altitude_invariant:
  "build_scene num_drones num_hospitals us rng = Some (Inr (s0, rng0)) \<Longrightarrow>
   \<exists>s rng'. run_ticks n s0 rng0 = Inr (s, rng') \<and>
     (\<forall>c \<in> set (clouds s). vz (cloud_location c) = CLOUD_ALTITUDE) \<and>
     (\<forall>d \<in> set (drones s). vz (drone_location d) = DRONE_ALTITUDE) \<and>
     DRONE_ALTITUDE = CLOUD_ALTITUDE"
proof -
  assume "build_scene num_drones num_hospitals us rng = Some (Inr (s0, rng0))"
  from build_scene_invariants [OF this] have "can_retarget s0" "level s0" by simp_all
  from run_ticks_invariant [OF this, of n rng0] show ?thesis
    by (auto simp: level_def DRONE_ALTITUDE_def)
qed

section \<open>A scene set up by the script\<close>

lemma vlength_gt_vz: "r < \<bar>c\<bar> \<Longrightarrow> r < vlength \<lparr>vx = a, vy = b, vz = c\<rparr>"
proof -
  assume r: "r < \<bar>c\<bar>"
  have "c * c \<le> a * a + b * b + c * c" by simp
  then have "sqrt (c * c) \<le> sqrt (a * a + b * b + c * c)" by (rule real_sqrt_le_mono)
  then have "\<bar>c\<bar> \<le> vlength \<lparr>vx = a, vy = b, vz = c\<rparr>" by (simp add: vlength_def)
  with r show ?thesis by linarith
qed

lemma example_hospitals:
  "create_hospitals 2 [] example_draws
   = Some ([hospital_A, hospital_B], sdrop 4 example_draws)"
  by (simp add: eval_nat_numeral example_draws_def place_accept hospital_ok_def
      sample_position_def uniform_def vsub_def Vector_def settings hospital_A_def hospital_B_def)

lemma sample_direction_east:
  "shd us = 3 / 4 \<Longrightarrow> shd (stl us) = 1 / 2 \<Longrightarrow> sample_direction us = Vector 1 0 0"
proof -
  assume a: "shd us = 3 / 4" and b: "shd (stl us) = 1 / 2"
  have "sample_direction us = normalized (Vector (1 / 2) 0 0)"
    unfolding sample_direction_def uniform_def a b by simp
  also have "\<dots> = Vector 1 0 0"
    by (simp add: normalized_def length_squared_def Vector_def vscale_def)
  finally show ?thesis .
qed

lemma example_clouds:
  "create_clouds (2 * 2) [hospital_A, hospital_B] [] (sdrop 4 example_draws)
   = Some ([cloud_east 0, cloud_east 10, cloud_east 20, cloud_east 30], sconst (1 / 2))"
  by (simp add: eval_nat_numeral example_draws_def place_accept cloud_ok_def
      sample_position_def uniform_def vsub_def Vector_def settings hospital_A_def hospital_B_def
      sample_direction_east cloud_east_def vlength_gt_vz)

lemma example_build:
  "build_scene 1 2 example_draws (sconst 0) = Some (Inr (example_scene, sconst 0))"
  unfolding build_scene_def example_hospitals
  by (simp only: option.case prod.case example_clouds)
     (simp add: example_scene_def choice_def hospital_A_def hospital_B_def Vector_def settings)

text \<open>The example scene is set up by the script, and a hundred ticks keep every altitude.\<close>

theorem altitude_invariant_witness:
  "build_scene 1 2 example_draws (sconst 0) = Some (Inr (example_scene, sconst 0)) \<and>
   (\<exists>s rng'. run_ticks 100 example_scene (sconst 0) = Inr (s, rng') \<and>
     (\<forall>c \<in> set (clouds s). vz (cloud_location c) = CLOUD_ALTITUDE) \<and>
     (\<forall>d \<in> set (drones s). vz (drone_location d) = DRONE_ALTITUDE) \<and>
     DRONE_ALTITUDE = CLOUD_ALTITUDE)"
  using altitude_invariant [OF example_build, of 100] example_build by blast

section \<open>The length of the heading\<close>

lemma move_cloud_heading_length:
  "vlength (cloud_direction (move_cloud hs c)) = vlength (cloud_direction c)"
  by (simp add: move_cloud_def Let_def vlength_def)

lemma sample_direction_half: "sample_direction (sconst (1 / 2)) = Vector0"
  by (simp add: sample_direction_def uniform_def normalized_def length_squared_def)

text \<open>
  Claim C10.  The sign flips of \<open>move_cloud\<close> keep the length of the heading, but the
  heading is not always the unit vector that the cloud loop tries to set: it samples two
  components in \<open>[-1, 1]\<close> and normalises them without a guard.  When both draws are
  \<open>1/2\<close> both components are \<open>0\<close>, \<open>normalized\<close> gives the zero vector, and the cloud is
  created with a heading of length \<open>0\<close>: the cloud controller leaves such a cloud where
  it is, in every tick, instead of displacing it by \<open>CLOUD_SPEED\<close>.
\<close>

theorem zero_heading:
  "create_clouds 1 [hospital_A, hospital_B] [] (sconst (1 / 2))
     = Some ([cloud_still], sconst (1 / 2)) \<and>
   cloud_direction cloud_still = Vector0 \<and>
   vlength (cloud_direction cloud_still) \<noteq> 1 \<and>
   move_cloud [hospital_A, hospital_B] cloud_still = cloud_still \<and>
   vlength (vsub (cloud_location (move_cloud [hospital_A, hospital_B] cloud_still))
      (cloud_location cloud_still)) \<noteq> CLOUD_SPEED"
proof -
  have ok: "cloud_ok [] (map hospital_location [hospital_A, hospital_B])
              (sample_position CLOUD_ALTITUDE (sconst (1 / 2)))"
    by (simp add: cloud_ok_def vsub_def Vector_def settings hospital_A_def hospital_B_def
        vlength_gt_vz)
  have "create_clouds (Suc 0) [hospital_A, hospital_B] [] (sconst (1 / 2))
     = Some ([cloud_still], sconst (1 / 2))"
    using place_accept [of "cloud_ok [] (map hospital_location [hospital_A, hospital_B])"
        CLOUD_ALTITUDE "sconst (1 / 2)", OF ok]
    by (simp add: sample_direction_half cloud_still_def settings)
  then have c: "create_clouds 1 [hospital_A, hospital_B] [] (sconst (1 / 2))
     = Some ([cloud_still], sconst (1 / 2))"
    by (simp only: One_nat_def)
  have d: "cloud_direction cloud_still = Vector0" by (simp add: cloud_still_def)
  have l: "vlength (cloud_direction cloud_still) \<noteq> 1" by (simp add: d)
  have m: "move_cloud [hospital_A, hospital_B] cloud_still = cloud_still"
    by (simp add: move_cloud_def cloud_still_def Let_def vadd_def vscale_def Vector_def
        Vector0_def)
  have v: "vlength (vsub (cloud_location (move_cloud [hospital_A, hospital_B] cloud_still))
      (cloud_location cloud_still)) \<noteq> CLOUD_SPEED"
    unfolding m by (simp add: cloud_still_def vsub_def Vector_def settings)
  from c d l m v show ?thesis by (intro conjI)
qed

section \<open>Fewer than two hospitals\<close>






end
